theory Spec2Isabelle
  imports Complex_Main "HOL-Library.Monad_Syntax"
begin

section \<open>Python float arithmetic over the reals\<close>

text \<open>
  The module \<^verbatim>\<open>fluids/two_phase.py\<close> computes with Python floats. Numbers are
  modelled as exact reals (rounding and overflow are left out); the operations
  that can raise are modelled as partial functions, \<open>None\<close> standing for
  "the call raises":
  \<^item> \<^verbatim>\<open>a / b\<close> raises \<^verbatim>\<open>ZeroDivisionError\<close> when \<^verbatim>\<open>b == 0\<close>;
  \<^item> \<^verbatim>\<open>a ** b\<close> is \<open>1\<close> when \<^verbatim>\<open>b == 0\<close>, raises \<^verbatim>\<open>ZeroDivisionError\<close> for a zero base and a
    negative exponent, and has no real value for a negative base and a
    fractional exponent (\<^verbatim>\<open>ValueError\<close> under Python 2, a complex number under
    Python 3);
  \<^item> \<^verbatim>\<open>math.log(a)\<close> raises \<^verbatim>\<open>ValueError\<close> when \<^verbatim>\<open>a <= 0\<close>.

  Powers with a literal integer exponent (\<^verbatim>\<open>D**2\<close>, \<^verbatim>\<open>x**10\<close>, \<^verbatim>\<open>x**3\<close>) never raise
  and are written with \<open>^\<close>.
\<close>

definition py_div :: "real \<Rightarrow> real \<Rightarrow> real option" where
  "py_div a b = (if b = 0 then None else Some (a / b))"

definition py_pow :: "real \<Rightarrow> real \<Rightarrow> real option" where
  "py_pow a b =
     (if b = 0 then Some 1
      else if a = 0 then (if b < 0 then None else Some 0)
      else if a < 0 then (if b = of_int \<lfloor>b\<rfloor> then Some (a powi \<lfloor>b\<rfloor>) else None)
      else Some (a powr b))"

definition py_log :: "real \<Rightarrow> real option" where
  "py_log a = (if a \<le> 0 then None else Some (ln a))"

section \<open>The external providers\<close>

text \<open>
  \<^verbatim>\<open>friction_factor\<close>, \<^verbatim>\<open>Reynolds\<close>, \<^verbatim>\<open>Froude\<close>, \<^verbatim>\<open>Weber\<close>, \<^verbatim>\<open>Confinement\<close>, \<^verbatim>\<open>Bond\<close>,
  \<^verbatim>\<open>homogeneous\<close> and \<^verbatim>\<open>Lockhart_Martinelli_Xtt\<close> are imported by the module from
  \<^verbatim>\<open>fluids.friction\<close>, \<^verbatim>\<open>fluids.core\<close> and \<^verbatim>\<open>fluids.two_phase_voidage\<close>. They are
  parameters of the model: a record of partial functions, with the arguments
  in the order of the keyword calls of the module
  (\<^verbatim>\<open>friction_factor(Re, eD)\<close>, \<^verbatim>\<open>Reynolds(V, rho, mu, D)\<close>, \<^verbatim>\<open>Froude(V, L, squared)\<close>,
  \<^verbatim>\<open>Weber(V, L, rho, sigma)\<close>, \<^verbatim>\<open>Confinement(D, rhol, rhog, sigma)\<close>,
  \<^verbatim>\<open>Bond(rhol, rhog, sigma, L)\<close>, \<^verbatim>\<open>homogeneous(x, rhol, rhog)\<close>,
  \<^verbatim>\<open>Lockhart_Martinelli_Xtt(x, rhol, rhog, mul, mug)\<close>).
\<close>

record providers =
  friction_factor :: "real \<Rightarrow> real \<Rightarrow> real option"
  Reynolds :: "real \<Rightarrow> real \<Rightarrow> real \<Rightarrow> real \<Rightarrow> real option"
  Froude :: "real \<Rightarrow> real \<Rightarrow> bool \<Rightarrow> real option"
  Weber :: "real \<Rightarrow> real \<Rightarrow> real \<Rightarrow> real \<Rightarrow> real option"
  Confinement :: "real \<Rightarrow> real \<Rightarrow> real \<Rightarrow> real \<Rightarrow> real option"
  Bond :: "real \<Rightarrow> real \<Rightarrow> real \<Rightarrow> real \<Rightarrow> real option"
  homogeneous :: "real \<Rightarrow> real \<Rightarrow> real \<Rightarrow> real option"
  Lockhart_Martinelli_Xtt :: "real \<Rightarrow> real \<Rightarrow> real \<Rightarrow> real \<Rightarrow> real \<Rightarrow> real option"

section \<open>The single-phase drop\<close>

text \<open>
  Every correlation starts with the same four lines, once per phase:
  \<^verbatim>\<open>v = flow/rho/(pi/4*D**2)\<close>, \<^verbatim>\<open>Re = Reynolds(V=v, rho=rho, mu=mu, D=D)\<close>,
  \<^verbatim>\<open>fd = friction_factor(Re=Re, eD=roughness/D)\<close> and
  \<^verbatim>\<open>dP = fd*L/D*(0.5*rho*v**2)\<close>. \<open>phase_flow\<close> is the first three,
  \<open>phase_dP\<close> the fourth, and \<open>single_phase_dP\<close> the four together.
\<close>

definition phase_flow ::
  "providers \<Rightarrow> real \<Rightarrow> real \<Rightarrow> real \<Rightarrow> real \<Rightarrow> real \<Rightarrow> (real \<times> real \<times> real) option" where
  "phase_flow P flow rho mu D roughness = do {
     q \<leftarrow> py_div flow rho;
     v \<leftarrow> py_div q (pi / 4 * D ^ 2);
     Re \<leftarrow> Reynolds P v rho mu D;
     eD \<leftarrow> py_div roughness D;
     fd \<leftarrow> friction_factor P Re eD;
     Some (v, Re, fd)
   }"

definition phase_dP :: "real \<Rightarrow> real \<Rightarrow> real \<Rightarrow> real \<Rightarrow> real \<Rightarrow> real option" where
  "phase_dP fd L D rho v = do {
     t \<leftarrow> py_div (fd * L) D;
     Some (t * (0.5 * rho * v ^ 2))
   }"

definition single_phase_dP ::
  "providers \<Rightarrow> real \<Rightarrow> real \<Rightarrow> real \<Rightarrow> real \<Rightarrow> real \<Rightarrow> real \<Rightarrow> real option" where
  "single_phase_dP P flow rho mu D roughness L = do {
     (v, Re, fd) \<leftarrow> phase_flow P flow rho mu D roughness;
     phase_dP fd L D rho v
   }"

section \<open>The correlations\<close>

definition Friedel ::
  "providers \<Rightarrow> real \<Rightarrow> real \<Rightarrow> real \<Rightarrow> real \<Rightarrow> real \<Rightarrow> real \<Rightarrow> real \<Rightarrow> real \<Rightarrow> real \<Rightarrow> real
     \<Rightarrow> real option" where
  "Friedel P m x rhol rhog mul mug sigma D roughness L = do {
     (v_lo, Re_lo, fd_lo) \<leftarrow> phase_flow P m rhol mul D roughness;
     dP_lo \<leftarrow> phase_dP fd_lo L D rhol v_lo;
     (v_go, Re_go, fd_go) \<leftarrow> phase_flow P m rhog mug D roughness;
     f1 \<leftarrow> py_pow x 0.78;
     f2 \<leftarrow> py_pow (1 - x) 0.224;
     let F = f1 * f2;
     r1 \<leftarrow> py_div rhol rhog;
     h1 \<leftarrow> py_pow r1 0.91;
     r2 \<leftarrow> py_div mug mul;
     h2 \<leftarrow> py_pow r2 0.19;
     h3 \<leftarrow> py_pow (1 - r2) 0.7;
     let H = h1 * h2 * h3;
     e \<leftarrow> py_div (rhol * fd_go) (rhog * fd_lo);
     let E = (1 - x) ^ 2 + x ^ 2 * e;
     voidage_h \<leftarrow> homogeneous P x rhol rhog;
     let rho_h = rhol * (1 - voidage_h) + rhog * voidage_h;
     Q_h \<leftarrow> py_div m rho_h;
     v_h \<leftarrow> py_div Q_h (pi / 4 * D ^ 2);
     Fr \<leftarrow> Froude P v_h D True;
     We \<leftarrow> Weber P v_h D rho_h sigma;
     p1 \<leftarrow> py_pow Fr 0.0454;
     p2 \<leftarrow> py_pow We 0.035;
     t \<leftarrow> py_div (3.24 * F * H) (p1 * p2);
     let phi_lo2 = E + t;
     Some (phi_lo2 * dP_lo)
   }"

definition Gronnerud ::
  "providers \<Rightarrow> real \<Rightarrow> real \<Rightarrow> real \<Rightarrow> real \<Rightarrow> real \<Rightarrow> real \<Rightarrow> real \<Rightarrow> real \<Rightarrow> real
     \<Rightarrow> real option" where
  "Gronnerud P m x rhol rhog mul mug D roughness L = do {
     G \<leftarrow> py_div m (pi / 4 * D ^ 2);
     V \<leftarrow> py_div G rhol;
     Frl \<leftarrow> Froude P V D True;
     f_Fr \<leftarrow> (if Frl \<ge> 1 then Some 1
             else do {
               a \<leftarrow> py_pow Frl 0.3;
               i \<leftarrow> py_div 1 Frl;
               l \<leftarrow> py_log i;
               Some (a + 0.0055 * l ^ 2)
             });
     x18 \<leftarrow> py_pow x 1.8;
     sf \<leftarrow> py_pow f_Fr 0.5;
     let dP_dL_Fr = f_Fr * (x + 4 * (x18 - x ^ 10 * sf));
     r \<leftarrow> py_div rhol rhog;
     mr \<leftarrow> py_div mul mug;
     mr25 \<leftarrow> py_pow mr 0.25;
     br \<leftarrow> py_div r mr25;
     let phi_gd = 1 + dP_dL_Fr * (br - 1);
     (v_lo, Re_lo, fd_lo) \<leftarrow> phase_flow P m rhol mul D roughness;
     dP_lo \<leftarrow> phase_dP fd_lo L D rhol v_lo;
     Some (phi_gd * dP_lo)
   }"

definition Chisholm ::
  "providers \<Rightarrow> real \<Rightarrow> real \<Rightarrow> real \<Rightarrow> real \<Rightarrow> real \<Rightarrow> real \<Rightarrow> real \<Rightarrow> real \<Rightarrow> real \<Rightarrow> bool
     \<Rightarrow> real option" where
  "Chisholm P m x rhol rhog mul mug D roughness L rough_correction = do {
     G_tp \<leftarrow> py_div m (pi / 4 * D ^ 2);
     (v_lo, Re_lo, fd_lo) \<leftarrow> phase_flow P m rhol mul D roughness;
     dP_lo \<leftarrow> phase_dP fd_lo L D rhol v_lo;
     (v_go, Re_go, fd_go) \<leftarrow> phase_flow P m rhog mug D roughness;
     dP_go \<leftarrow> phase_dP fd_go L D rhog v_go;
     g2 \<leftarrow> py_div dP_go dP_lo;
     Gamma \<leftarrow> py_pow g2 0.5;
     B \<leftarrow> (if Gamma \<le> 9.5 then
             (if G_tp \<le> 500 then Some 4.8
              else if G_tp < 1900 then py_div 2400 G_tp
              else do { s \<leftarrow> py_pow G_tp (- 0.5); Some (55 * s) })
           else if Gamma \<le> 28 then
             (if G_tp \<le> 600 then do { s \<leftarrow> py_pow G_tp (- 0.5); py_div (520 * s) Gamma }
              else py_div 21 Gamma)
           else do { s \<leftarrow> py_pow G_tp (- 0.5); py_div (15000 * s) (Gamma ^ 2) });
     (n, B) \<leftarrow> (if rough_correction then do {
                   a \<leftarrow> py_div fd_lo fd_go;
                   la \<leftarrow> py_log a;
                   b \<leftarrow> py_div Re_go Re_lo;
                   lb \<leftarrow> py_log b;
                   n \<leftarrow> py_div la lb;
                   mr \<leftarrow> py_div mug mul;
                   r \<leftarrow> py_div (- 600 * roughness) D;
                   t \<leftarrow> py_pow 10 r;
                   B_ratio \<leftarrow> py_pow (0.5 * (1 + mr ^ 2 + t)) ((0.25 - n) / 0.25);
                   Some (n, B * B_ratio)
                 }
                 else Some (0.25, B));
     p1 \<leftarrow> py_pow x ((2 - n) / 2);
     p2 \<leftarrow> py_pow (1 - x) ((2 - n) / 2);
     p3 \<leftarrow> py_pow x (2 - n);
     let phi2_ch = 1 + (Gamma ^ 2 - 1) * (B * p1 * p2 + p3);
     Some (phi2_ch * dP_lo)
   }"

definition Baroczy_Chisholm ::
  "providers \<Rightarrow> real \<Rightarrow> real \<Rightarrow> real \<Rightarrow> real \<Rightarrow> real \<Rightarrow> real \<Rightarrow> real \<Rightarrow> real \<Rightarrow> real
     \<Rightarrow> real option" where
  "Baroczy_Chisholm P m x rhol rhog mul mug D roughness L = do {
     G_tp \<leftarrow> py_div m (pi / 4 * D ^ 2);
     (v_lo, Re_lo, fd_lo) \<leftarrow> phase_flow P m rhol mul D roughness;
     dP_lo \<leftarrow> phase_dP fd_lo L D rhol v_lo;
     (v_go, Re_go, fd_go) \<leftarrow> phase_flow P m rhog mug D roughness;
     dP_go \<leftarrow> phase_dP fd_go L D rhog v_go;
     g2 \<leftarrow> py_div dP_go dP_lo;
     Gamma \<leftarrow> py_pow g2 0.5;
     B \<leftarrow> (if Gamma \<le> 9.5 then do { s \<leftarrow> py_pow G_tp (- 0.5); Some (55 * s) }
           else if Gamma \<le> 28 then do { s \<leftarrow> py_pow G_tp (- 0.5); py_div (520 * s) Gamma }
           else do { s \<leftarrow> py_pow G_tp (- 0.5); py_div (15000 * s) (Gamma ^ 2) });
     p1 \<leftarrow> py_pow x ((2 - 0.25) / 2);
     p2 \<leftarrow> py_pow (1 - x) ((2 - 0.25) / 2);
     p3 \<leftarrow> py_pow x (2 - 0.25);
     let phi2_ch = 1 + (Gamma ^ 2 - 1) * (B * p1 * p2 + p3);
     Some (phi2_ch * dP_lo)
   }"

definition Muller_Steinhagen_Heck ::
  "providers \<Rightarrow> real \<Rightarrow> real \<Rightarrow> real \<Rightarrow> real \<Rightarrow> real \<Rightarrow> real \<Rightarrow> real \<Rightarrow> real \<Rightarrow> real
     \<Rightarrow> real option" where
  "Muller_Steinhagen_Heck P m x rhol rhog mul mug D roughness L = do {
     (v_lo, Re_lo, fd_lo) \<leftarrow> phase_flow P m rhol mul D roughness;
     dP_lo \<leftarrow> phase_dP fd_lo L D rhol v_lo;
     (v_go, Re_go, fd_go) \<leftarrow> phase_flow P m rhog mug D roughness;
     dP_go \<leftarrow> phase_dP fd_go L D rhog v_go;
     let G_MSH = dP_lo + 2 * (dP_go - dP_lo) * x;
     c \<leftarrow> py_pow (1 - x) (1 / 3);
     Some (G_MSH * c + dP_go * x ^ 3)
   }"


definition Theissing ::
  "providers \<Rightarrow> real \<Rightarrow> real \<Rightarrow> real \<Rightarrow> real \<Rightarrow> real \<Rightarrow> real \<Rightarrow> real \<Rightarrow> real \<Rightarrow> real
     \<Rightarrow> real option" where
  "Theissing P m x rhol rhog mul mug D roughness L = do {
     (v_lo, Re_lo, fd_lo) \<leftarrow> phase_flow P m rhol mul D roughness;
     dP_lo \<leftarrow> phase_dP fd_lo L D rhol v_lo;
     (v_go, Re_go, fd_go) \<leftarrow> phase_flow P m rhog mug D roughness;
     dP_go \<leftarrow> phase_dP fd_go L D rhog v_go;
     if x = 0 then Some dP_lo
     else if x = 1 then Some dP_go
     else do {
       (v_l, Re_l, fd_l) \<leftarrow> phase_flow P (m * (1 - x)) rhol mul D roughness;
       dP_l \<leftarrow> phase_dP fd_l L D rhol v_l;
       (v_g, Re_g, fd_g) \<leftarrow> phase_flow P (m * x) rhog mug D roughness;
       dP_g \<leftarrow> phase_dP fd_g L D rhog v_g;
       a1 \<leftarrow> py_div dP_l dP_lo;
       l1 \<leftarrow> py_log a1;
       l2 \<leftarrow> py_log (1 - x);
       n1 \<leftarrow> py_div l1 l2;
       a2 \<leftarrow> py_div dP_g dP_go;
       l3 \<leftarrow> py_log a2;
       l4 \<leftarrow> py_log x;
       n2 \<leftarrow> py_div l3 l4;
       r \<leftarrow> py_div dP_g dP_l;
       r01 \<leftarrow> py_pow r 0.1;
       n \<leftarrow> py_div (n1 + n2 * r01) (1 + r01);
       dr \<leftarrow> py_div rhol rhog;
       sq \<leftarrow> py_pow dr 0.5;
       b \<leftarrow> py_div (2 * sq) (1 + dr);
       e \<leftarrow> py_div 0.7 n;
       pw \<leftarrow> py_pow b e;
       let epsilon = 3 - 2 * pw;
       i1 \<leftarrow> py_div 1 (n * epsilon);
       i2 \<leftarrow> py_div 1 epsilon;
       t1 \<leftarrow> py_pow dP_lo i1;
       t2 \<leftarrow> py_pow (1 - x) i2;
       t3 \<leftarrow> py_pow dP_go i1;
       t4 \<leftarrow> py_pow x i2;
       py_pow (t1 * t2 + t3 * t4) (n * epsilon)
     }
   }"



definition Chen_Friedel ::
  "providers \<Rightarrow> real \<Rightarrow> real \<Rightarrow> real \<Rightarrow> real \<Rightarrow> real \<Rightarrow> real \<Rightarrow> real \<Rightarrow> real \<Rightarrow> real \<Rightarrow> real
     \<Rightarrow> real option" where
  "Chen_Friedel P m x rhol rhog mul mug sigma D roughness L = do {
     (v_lo, Re_lo, fd_lo) \<leftarrow> phase_flow P m rhol mul D roughness;
     dP_lo \<leftarrow> phase_dP fd_lo L D rhol v_lo;
     (v_go, Re_go, fd_go) \<leftarrow> phase_flow P m rhog mug D roughness;
     f1 \<leftarrow> py_pow x 0.78;
     f2 \<leftarrow> py_pow (1 - x) 0.224;
     let F = f1 * f2;
     r1 \<leftarrow> py_div rhol rhog;
     h1 \<leftarrow> py_pow r1 0.91;
     r2 \<leftarrow> py_div mug mul;
     h2 \<leftarrow> py_pow r2 0.19;
     h3 \<leftarrow> py_pow (1 - r2) 0.7;
     let H = h1 * h2 * h3;
     e \<leftarrow> py_div (rhol * fd_go) (rhog * fd_lo);
     let E = (1 - x) ^ 2 + x ^ 2 * e;
     xg \<leftarrow> py_div x rhog;
     xl \<leftarrow> py_div (1 - x) rhol;
     rho_h \<leftarrow> py_div 1 (xg + xl);
     Q_h \<leftarrow> py_div m rho_h;
     v_h \<leftarrow> py_div Q_h (pi / 4 * D ^ 2);
     Fr \<leftarrow> Froude P v_h D True;
     We \<leftarrow> Weber P v_h D rho_h sigma;
     p1 \<leftarrow> py_pow Fr 0.0454;
     p2 \<leftarrow> py_pow We 0.035;
     t \<leftarrow> py_div (3.24 * F * H) (p1 * p2);
     let phi_lo2 = E + t;
     let dP = phi_lo2 * dP_lo;
     bond \<leftarrow> Bond P rhol rhog sigma D;
     let Bo = bond / 4;
     Omega \<leftarrow> (if Bo < 2.5 then do {
                  q \<leftarrow> py_div (m * x) rhog;
                  v_g \<leftarrow> py_div q (pi / 4 * D ^ 2);
                  Re_g \<leftarrow> Reynolds P v_g rhog mug D;
                  a \<leftarrow> py_pow Re_lo 0.45;
                  b \<leftarrow> py_pow Re_g 0.09;
                  py_div (0.0333 * a) (b * (1 + 0.5 * exp (- Bo)))
                }
                else do {
                  w \<leftarrow> py_pow We 0.2;
                  py_div w (2.5 + 0.06 * Bo)
                });
     Some (dP * Omega)
   }"


section \<open>A concrete set of providers\<close>

text \<open>
  Modelled from the spec: the external providers \<^verbatim>\<open>friction_factor\<close>, \<^verbatim>\<open>Reynolds\<close>,
  \<^verbatim>\<open>Froude\<close>, \<^verbatim>\<open>Weber\<close>, \<^verbatim>\<open>Confinement\<close>, \<^verbatim>\<open>Bond\<close>, \<^verbatim>\<open>homogeneous\<close> and
  \<^verbatim>\<open>Lockhart_Martinelli_Xtt\<close> (modules \<^verbatim>\<open>fluids.friction\<close>, \<^verbatim>\<open>fluids.core\<close> and
  \<^verbatim>\<open>fluids.two_phase_voidage\<close>, which are not part of the sources at hand).
  The dimensionless groups follow the formulas the docstrings of
  \<^verbatim>\<open>two_phase.py\<close> give for them: \<open>Fr = V\<^sup>2/(g L)\<close>, \<open>We = V\<^sup>2 L \<rho>/\<sigma>\<close>,
  \<open>Bo = g (\<rho>\<^sub>l - \<rho>\<^sub>g) L\<^sup>2/\<sigma>\<close> (the module quarters it),
  \<open>\<rho>\<^sub>H = (x/\<rho>\<^sub>g + (1 - x)/\<rho>\<^sub>l)\<^sup>-\<^sup>1\<close> for the homogeneous void fraction, with
  \<open>Re = V D/(\<mu>/\<rho>)\<close>, the confinement number \<open>\<surd>(\<sigma>/(g (\<rho>\<^sub>l - \<rho>\<^sub>g)))/D\<close> and the
  Lockhart-Martinelli parameter \<open>((1 - x)/x)\<^sup>0\<^sup>.\<^sup>9 (\<rho>\<^sub>g/\<rho>\<^sub>l)\<^sup>0\<^sup>.\<^sup>5 (\<mu>\<^sub>l/\<mu>\<^sub>g)\<^sup>0\<^sup>.\<^sup>1\<close>.
  The friction factor is the laminar law \<open>64/Re\<close>, a positive Darcy friction
  factor as the contract of the provider asks; the inputs at which a
  statement of the specification is shown to fail keep every Reynolds number
  in the laminar range (below 2000), where \<open>64/Re\<close> is the friction factor of
  pipe flow. These providers serve the concrete instances only: the general
  theorems hold for every record of providers that meets the stated
  contracts.
\<close>

definition g_std :: real where
  "g_std = 9.80665"

definition std :: providers where
  "std = \<lparr>
     friction_factor = (\<lambda>Rn eD. py_div 64 Rn),
     Reynolds = (\<lambda>V rho mu D. do { nu \<leftarrow> py_div mu rho; py_div (V * D) nu }),
     Froude = (\<lambda>V L squared.
        if squared then py_div (V ^ 2) (g_std * L)
        else do { s \<leftarrow> py_pow (g_std * L) 0.5; py_div V s }),
     Weber = (\<lambda>V L rho sigma. py_div (V ^ 2 * L * rho) sigma),
     Confinement = (\<lambda>D rhol rhog sigma. do {
        a \<leftarrow> py_div sigma (g_std * (rhol - rhog));
        s \<leftarrow> py_pow a 0.5;
        py_div s D }),
     Bond = (\<lambda>rhol rhog sigma L. py_div (g_std * (rhol - rhog) * L ^ 2) sigma),
     homogeneous = (\<lambda>x rhol rhog. do {
        a \<leftarrow> py_div x rhog;
        b \<leftarrow> py_div (1 - x) rhol;
        py_div a (a + b) }),
     Lockhart_Martinelli_Xtt = (\<lambda>x rhol rhog mul mug. do {
        a \<leftarrow> py_div (1 - x) x;
        a9 \<leftarrow> py_pow a 0.9;
        b \<leftarrow> py_div rhog rhol;
        b5 \<leftarrow> py_pow b 0.5;
        c \<leftarrow> py_div mul mug;
        c1 \<leftarrow> py_pow c 0.1;
        Some (a9 * b5 * c1) })
   \<rparr>"

section \<open>Contracts of the providers\<close>

text \<open>
  The contracts the specification states for the collaborators:
  a Reynolds number and a Darcy friction factor are positive numbers
  (\<open>flow_ok\<close>); the homogeneous void fraction lies in \<open>[0, 1]\<close> and the Froude
  and Weber numbers of a moving mixture are positive (\<open>mixture_ok\<close>).
\<close>

definition flow_ok :: "providers \<Rightarrow> bool" where
  "flow_ok P \<longleftrightarrow>
     (\<forall>V rho mu D. 0 < V \<and> 0 < rho \<and> 0 < mu \<and> 0 < D \<longrightarrow>
        (\<exists>Rn. Reynolds P V rho mu D = Some Rn \<and> 0 < Rn)) \<and>
     (\<forall>Rn eD. 0 < Rn \<and> 0 \<le> eD \<longrightarrow>
        (\<exists>fd. friction_factor P Rn eD = Some fd \<and> 0 < fd))"

definition mixture_ok :: "providers \<Rightarrow> bool" where
  "mixture_ok P \<longleftrightarrow>
     (\<forall>x rhol rhog. 0 \<le> x \<and> x \<le> 1 \<and> 0 < rhol \<and> 0 < rhog \<longrightarrow>
        (\<exists>a. homogeneous P x rhol rhog = Some a \<and> 0 \<le> a \<and> a \<le> 1)) \<and>
     (\<forall>V L. 0 < V \<and> 0 < L \<longrightarrow> (\<exists>Fr. Froude P V L True = Some Fr \<and> 0 < Fr)) \<and>
     (\<forall>V L rho sigma. 0 < V \<and> 0 < L \<and> 0 < rho \<and> 0 < sigma \<longrightarrow>
        (\<exists>We. Weber P V L rho sigma = Some We \<and> 0 < We))"

section \<open>The documented coefficient table of Chisholm\<close>

text \<open>
  The table of the coefficient \<open>B\<close> as the documentation words it, every
  interval with both of its bounds: for \<open>\<Gamma> \<le> 9.5\<close>, \<open>B = 4.8\<close> when \<open>G \<le> 500\<close>,
  \<open>2400/G\<close> when \<open>500 < G < 1900\<close> and \<open>55/\<surd>G\<close> otherwise; for \<open>9.5 < \<Gamma> \<le> 28\<close>,
  \<open>520/(\<Gamma> \<surd>G)\<close> when \<open>G \<le> 600\<close> and \<open>21/\<Gamma>\<close> otherwise; for \<open>\<Gamma> > 28\<close>,
  \<open>15000/(\<Gamma>\<^sup>2 \<surd>G)\<close>.
\<close>

definition B_documented :: "real \<Rightarrow> real \<Rightarrow> real" where
  "B_documented Gamma G_tp =
     (if Gamma \<le> 9.5 then
        (if G_tp \<le> 500 then 4.8
         else if 500 < G_tp \<and> G_tp < 1900 then 2400 / G_tp
         else 55 / sqrt G_tp)
      else if 9.5 < Gamma \<and> Gamma \<le> 28 then
        (if G_tp \<le> 600 then 520 / (Gamma * sqrt G_tp)
         else 21 / Gamma)
      else 15000 / (Gamma ^ 2 * sqrt G_tp))"

section \<open>The factor of Chen\<close>

text \<open>
  \<open>Chen_Omega\<close> is the factor \<^verbatim>\<open>Omega\<close> that \<^verbatim>\<open>Chen_Friedel\<close> computes in its last
  lines (\<^verbatim>\<open>Bo = Bond(...)/4\<close> and the two branches on \<^verbatim>\<open>Bo < 2.5\<close>), together with
  the values of the function it reads: \<^verbatim>\<open>Re_lo\<close> of the liquid-only flow and the
  Weber number \<^verbatim>\<open>We\<close> of the homogeneous mixture, computed as \<^verbatim>\<open>Chen_Friedel\<close>
  computes them.
\<close>

definition Chen_Omega ::
  "providers \<Rightarrow> real \<Rightarrow> real \<Rightarrow> real \<Rightarrow> real \<Rightarrow> real \<Rightarrow> real \<Rightarrow> real \<Rightarrow> real \<Rightarrow> real
     \<Rightarrow> real option" where
  "Chen_Omega P m x rhol rhog mul mug sigma D roughness = do {
     (v_lo, Re_lo, fd_lo) \<leftarrow> phase_flow P m rhol mul D roughness;
     xg \<leftarrow> py_div x rhog;
     xl \<leftarrow> py_div (1 - x) rhol;
     rho_h \<leftarrow> py_div 1 (xg + xl);
     Q_h \<leftarrow> py_div m rho_h;
     v_h \<leftarrow> py_div Q_h (pi / 4 * D ^ 2);
     We \<leftarrow> Weber P v_h D rho_h sigma;
     bond \<leftarrow> Bond P rhol rhog sigma D;
     let Bo = bond / 4;
     if Bo < 2.5 then do {
       q \<leftarrow> py_div (m * x) rhog;
       v_g \<leftarrow> py_div q (pi / 4 * D ^ 2);
       Re_g \<leftarrow> Reynolds P v_g rhog mug D;
       a \<leftarrow> py_pow Re_lo 0.45;
       b \<leftarrow> py_pow Re_g 0.09;
       py_div (0.0333 * a) (b * (1 + 0.5 * exp (- Bo)))
     }
     else do {
       w \<leftarrow> py_pow We 0.2;
       py_div w (2.5 + 0.06 * Bo)
     }
   }"

text \<open>
  The factor as the docstring of \<^verbatim>\<open>Chen_Friedel\<close> states it:
  \<open>\<Omega> = 0.0333 Re_lo\<^sup>0\<^sup>.\<^sup>4\<^sup>5/(Re_g\<^sup>0\<^sup>.\<^sup>0\<^sup>9 (1 + 0.4 exp(-Bo)))\<close> for \<open>Bo < 2.5\<close> and
  \<open>\<Omega> = We\<^sup>0\<^sup>.\<^sup>2/(2.5 + 0.06 Bo)\<close> for \<open>Bo \<ge> 2.5\<close>, and the documented result, the
  value of \<open>Friedel\<close> times this factor.
\<close>

definition Omega_documented ::
  "providers \<Rightarrow> real \<Rightarrow> real \<Rightarrow> real \<Rightarrow> real \<Rightarrow> real \<Rightarrow> real \<Rightarrow> real \<Rightarrow> real \<Rightarrow> real
     \<Rightarrow> real option" where
  "Omega_documented P m x rhol rhog mul mug sigma D roughness = do {
     (v_lo, Re_lo, fd_lo) \<leftarrow> phase_flow P m rhol mul D roughness;
     xg \<leftarrow> py_div x rhog;
     xl \<leftarrow> py_div (1 - x) rhol;
     rho_h \<leftarrow> py_div 1 (xg + xl);
     Q_h \<leftarrow> py_div m rho_h;
     v_h \<leftarrow> py_div Q_h (pi / 4 * D ^ 2);
     We \<leftarrow> Weber P v_h D rho_h sigma;
     bond \<leftarrow> Bond P rhol rhog sigma D;
     let Bo = bond / 4;
     if Bo < 2.5 then do {
       q \<leftarrow> py_div (m * x) rhog;
       v_g \<leftarrow> py_div q (pi / 4 * D ^ 2);
       Re_g \<leftarrow> Reynolds P v_g rhog mug D;
       a \<leftarrow> py_pow Re_lo 0.45;
       b \<leftarrow> py_pow Re_g 0.09;
       py_div (0.0333 * a) (b * (1 + 0.4 * exp (- Bo)))
     }
     else do {
       w \<leftarrow> py_pow We 0.2;
       py_div w (2.5 + 0.06 * Bo)
     }
   }"

definition Chen_Friedel_documented ::
  "providers \<Rightarrow> real \<Rightarrow> real \<Rightarrow> real \<Rightarrow> real \<Rightarrow> real \<Rightarrow> real \<Rightarrow> real \<Rightarrow> real \<Rightarrow> real \<Rightarrow> real
     \<Rightarrow> real option" where
  "Chen_Friedel_documented P m x rhol rhog mul mug sigma D roughness L = do {
     dP \<leftarrow> Friedel P m x rhol rhog mul mug sigma D roughness L;
     Omega \<leftarrow> Omega_documented P m x rhol rhog mul mug sigma D roughness;
     Some (dP * Omega)
   }"

text \<open>The Bond number provider returns for every positive surface tension and length.\<close>

definition bond_ok :: "providers \<Rightarrow> bool" where
  "bond_ok P \<longleftrightarrow>
     (\<forall>rhol rhog sigma L. 0 < sigma \<and> 0 < L \<longrightarrow> (\<exists>b. Bond P rhol rhog sigma L = Some b))"

text \<open>
  Modelled from the spec: the provider \<^verbatim>\<open>homogeneous\<close> (module
  \<^verbatim>\<open>fluids.two_phase_voidage\<close>), which returns the void fraction of the
  homogeneous model, the gas share of the volume flow,
  \<open>(x/\<rho>\<^sub>g)/(x/\<rho>\<^sub>g + (1 - x)/\<rho>\<^sub>l)\<close>; with it the mixture density
  \<open>\<rho>\<^sub>l (1 - \<alpha>) + \<rho>\<^sub>g \<alpha>\<close> is the \<open>\<rho>\<^sub>H = (x/\<rho>\<^sub>g + (1 - x)/\<rho>\<^sub>l)\<^sup>-\<^sup>1\<close> of the docstring of
  \<^verbatim>\<open>Friedel\<close>.
\<close>

definition homogeneous_model :: "providers \<Rightarrow> bool" where
  "homogeneous_model P \<longleftrightarrow>
     (\<forall>x rhol rhog. 0 \<le> x \<and> x \<le> 1 \<and> 0 < rhol \<and> 0 < rhog \<longrightarrow>
        homogeneous P x rhol rhog = Some (x / rhog / (x / rhog + (1 - x) / rhol)))"

section \<open>Calls with optional arguments\<close>

text \<open>
  A call that may leave out \<^verbatim>\<open>roughness\<close> and \<^verbatim>\<open>L\<close>: an argument is \<open>Some v\<close> when
  the caller passes it and \<open>None\<close> when the caller omits it. The \<^verbatim>\<open>def\<close> line
  decides what an omitted argument means: \<^verbatim>\<open>Friedel\<close> is declared with
  \<^verbatim>\<open>roughness=0, L=1\<close>, so its omitted arguments take these defaults;
  \<^verbatim>\<open>Chen_Friedel\<close> is declared with \<^verbatim>\<open>roughness, L\<close> and no default, so a call
  that omits either raises \<^verbatim>\<open>TypeError\<close> before the body runs.
\<close>

definition Friedel_call ::
  "providers \<Rightarrow> real \<Rightarrow> real \<Rightarrow> real \<Rightarrow> real \<Rightarrow> real \<Rightarrow> real \<Rightarrow> real \<Rightarrow> real
     \<Rightarrow> real option \<Rightarrow> real option \<Rightarrow> real option" where
  "Friedel_call P m x rhol rhog mul mug sigma D roughness L =
     Friedel P m x rhol rhog mul mug sigma D
       (case roughness of None \<Rightarrow> 0 | Some r \<Rightarrow> r)
       (case L of None \<Rightarrow> 1 | Some l \<Rightarrow> l)"

definition Chen_Friedel_call ::
  "providers \<Rightarrow> real \<Rightarrow> real \<Rightarrow> real \<Rightarrow> real \<Rightarrow> real \<Rightarrow> real \<Rightarrow> real \<Rightarrow> real
     \<Rightarrow> real option \<Rightarrow> real option \<Rightarrow> real option" where
  "Chen_Friedel_call P m x rhol rhog mul mug sigma D roughness L =
     (case roughness of
        None \<Rightarrow> None
      | Some r \<Rightarrow>
          (case L of
             None \<Rightarrow> None
           | Some l \<Rightarrow> Chen_Friedel P m x rhol rhog mul mug sigma D r l))"

section \<open>Results that are returned\<close>





section \<open>Friction that grows with the flow\<close>

text \<open>
  Two further properties a friction-factor provider and a Reynolds provider
  can have. \<open>reynolds_model\<close>: the Reynolds number is \<open>\<rho> V D/\<mu>\<close>.
  \<open>friction_increasing\<close>: the product \<open>f\<^sub>d Re\<^sup>2\<close>, to which the single-phase
  pressure drop is proportional, grows strictly with \<open>Re\<close> at a fixed relative
  roughness (for laminar flow it is \<open>64 Re\<close>). With both, the single-phase drop
  of a larger flow is larger.
\<close>

definition reynolds_model :: "providers \<Rightarrow> bool" where
  "reynolds_model P \<longleftrightarrow>
     (\<forall>V rho mu D. 0 < V \<and> 0 < rho \<and> 0 < mu \<and> 0 < D \<longrightarrow>
        Reynolds P V rho mu D = Some (rho * V * D / mu))"

definition friction_increasing :: "providers \<Rightarrow> bool" where
  "friction_increasing P \<longleftrightarrow>
     (\<forall>Rn Rn' eD f f'. 0 < Rn \<and> Rn < Rn' \<and> 0 \<le> eD \<and>
        friction_factor P Rn eD = Some f \<and> friction_factor P Rn' eD = Some f' \<longrightarrow>
        f * Rn ^ 2 < f' * Rn' ^ 2)"

text \<open>
  The factor \<^verbatim>\<open>f_Fr\<close> of \<^verbatim>\<open>Gronnerud\<close> as a function of a positive liquid Froude
  number: \<open>1\<close> for \<open>Fr\<^sub>l \<ge> 1\<close>, else \<open>Fr\<^sub>l\<^sup>0\<^sup>.\<^sup>3 + 0.0055 (ln (1/Fr\<^sub>l))\<^sup>2\<close>.
  \<open>Gronnerud_factor_le_one\<close>: the Froude provider returns a positive \<open>Fr\<^sub>l\<close> for
  the liquid-only velocity, and the factor is at most 1 there.
\<close>

definition Gronnerud_f_Fr :: "real \<Rightarrow> real" where
  "Gronnerud_f_Fr Frl = (if Frl \<ge> 1 then 1 else Frl powr 0.3 + 0.0055 * (ln (1 / Frl)) ^ 2)"

definition Gronnerud_factor_le_one :: "providers \<Rightarrow> real \<Rightarrow> real \<Rightarrow> real \<Rightarrow> bool" where
  "Gronnerud_factor_le_one P m rhol D =
     (case Froude P (m / (pi / 4 * D ^ 2) / rhol) D True of
        None \<Rightarrow> False
      | Some Frl \<Rightarrow> 0 < Frl \<and> Gronnerud_f_Fr Frl \<le> 1)"

text \<open>\<open>nonneg_if_returns r\<close>: if the call returns, its value is not negative.\<close>

definition nonneg_if_returns :: "real option \<Rightarrow> bool" where
  "nonneg_if_returns r = (case r of None \<Rightarrow> True | Some a \<Rightarrow> 0 \<le> a)"

section \<open>Basic facts\<close>

lemma py_div_Some: "b \<noteq> 0 \<Longrightarrow> py_div a b = Some (a / b)"
  by (simp add: py_div_def)

lemma py_pow_pos: "0 < a \<Longrightarrow> b \<noteq> 0 \<Longrightarrow> py_pow a b = Some (a powr b)"
  by (simp add: py_pow_def)

lemma py_pow_nonneg: "0 \<le> a \<Longrightarrow> 0 < b \<Longrightarrow> py_pow a b = Some (a powr b)"
  by (simp add: py_pow_def)

lemma py_pow_negative_base:
  "a < 0 \<Longrightarrow> b \<noteq> of_int \<lfloor>b\<rfloor> \<Longrightarrow> py_pow a b = None"
  by (auto simp add: py_pow_def)

lemma phase_dP_Some:
  "D \<noteq> 0 \<Longrightarrow> phase_dP fd L D rho v = Some (fd * L / D * (0.5 * rho * v ^ 2))"
  by (simp add: phase_dP_def py_div_def)

lemma flow_ok_Reynolds:
  "flow_ok P \<Longrightarrow> 0 < V \<Longrightarrow> 0 < rho \<Longrightarrow> 0 < mu \<Longrightarrow> 0 < D \<Longrightarrow>
     \<exists>Rn. Reynolds P V rho mu D = Some Rn \<and> 0 < Rn"
  unfolding flow_ok_def by blast

lemma flow_ok_friction:
  "flow_ok P \<Longrightarrow> 0 < Rn \<Longrightarrow> 0 \<le> eD \<Longrightarrow>
     \<exists>fd. friction_factor P Rn eD = Some fd \<and> 0 < fd"
  unfolding flow_ok_def by blast

lemma phase_flow_ok:
  assumes "flow_ok P" "0 < flow" "0 < rho" "0 < mu" "0 < D" "0 \<le> roughness"
  obtains Rn fd where
    "phase_flow P flow rho mu D roughness = Some (flow / rho / (pi / 4 * D ^ 2), Rn, fd)"
    "0 < Rn" "0 < fd"
proof -
  let ?v = "flow / rho / (pi / 4 * D ^ 2)"
  have v: "0 < ?v" using assms(2,3,5) by simp
  obtain Rn where Rn: "Reynolds P ?v rho mu D = Some Rn" "0 < Rn"
    using flow_ok_Reynolds[OF assms(1) v assms(3,4,5)] by blast
  have "0 \<le> roughness / D" using assms(5,6) by simp
  then obtain fd where fd: "friction_factor P Rn (roughness / D) = Some fd" "0 < fd"
    using flow_ok_friction[OF assms(1) Rn(2)] by blast
  have D: "D \<noteq> 0" "rho \<noteq> 0" using assms by simp_all
  have "phase_flow P flow rho mu D roughness = Some (?v, Rn, fd)"
    using D Rn(1) fd(1) by (simp add: phase_flow_def py_div_def)
  then show ?thesis using that Rn fd by blast
qed

lemma std_flow_ok: "flow_ok std"
  by (simp add: flow_ok_def std_def py_div_def)

section \<open>Chisholm\<close>

lemma powr_neg_half: "0 < G \<Longrightarrow> G powr (- 0.5) = 1 / sqrt (G::real)"
proof -
  assume G: "0 < G"
  have e: "(- 0.5 :: real) = - (1 / 2)" by simp
  have "G powr (- (1 / 2)) = inverse (G powr (1 / 2))" by (rule powr_minus)
  also have "\<dots> = 1 / sqrt G" using G by (simp add: powr_half_sqrt inverse_eq_divide)
  finally show ?thesis unfolding e .
qed

lemma py_pow_neg_half: "0 < G \<Longrightarrow> py_pow G (- 0.5) = Some (1 / sqrt G)"
  using powr_neg_half[of G] by (simp add: py_pow_def)

lemma py_pow_half: "0 \<le> a \<Longrightarrow> py_pow a 0.5 = Some (sqrt a)"
  by (simp add: py_pow_def powr_half_sqrt)

lemma Chisholm_B_eval:
  assumes "0 < Gamma" "0 < G_tp"
  shows "(if Gamma \<le> 9.5 then
             (if G_tp \<le> 500 then Some 4.8
              else if G_tp < 1900 then py_div 2400 G_tp
              else do { s \<leftarrow> py_pow G_tp (- 0.5); Some (55 * s) })
           else if Gamma \<le> 28 then
             (if G_tp \<le> 600 then do { s \<leftarrow> py_pow G_tp (- 0.5); py_div (520 * s) Gamma }
              else py_div 21 Gamma)
           else do { s \<leftarrow> py_pow G_tp (- 0.5); py_div (15000 * s) (Gamma ^ 2) })
         = Some (B_documented Gamma G_tp)"
  using assms unfolding B_documented_def py_pow_neg_half[OF assms(2)] by (simp add: py_div_def)

lemma Chisholm_value:
  assumes lo: "phase_flow P m rhol mul D roughness = Some (v_lo, R_lo, fd_lo)"
      and go: "phase_flow P m rhog mug D roughness = Some (v_go, R_go, fd_go)"
      and dlo: "dP_lo = fd_lo * L / D * (0.5 * rhol * v_lo ^ 2)"
      and dgo: "dP_go = fd_go * L / D * (0.5 * rhog * v_go ^ 2)"
      and pos: "0 < dP_lo" "0 < dP_go" "0 < m" "0 < D"
      and x: "0 \<le> x" "x \<le> 1"
  shows "Chisholm P m x rhol rhog mul mug D roughness L False =
     Some ((1 + ((sqrt (dP_go / dP_lo)) ^ 2 - 1) *
              (B_documented (sqrt (dP_go / dP_lo)) (m / (pi / 4 * D ^ 2)) * x powr 0.875 * (1 - x) powr 0.875
               + x powr 1.75)) * dP_lo)"
proof -
  have D: "D \<noteq> 0" "pi / 4 * D ^ 2 \<noteq> 0" using pos by simp_all
  have G: "0 < m / (pi / 4 * D ^ 2)" using pos by simp
  have g2: "0 < dP_go / dP_lo" using pos by simp
  then have Gam: "0 < sqrt (dP_go / dP_lo)" by simp
  have lo0: "dP_lo \<noteq> 0" using pos by simp
  have px: "py_pow x ((2 - 0.25) / 2) = Some (x powr 0.875)" 
           "py_pow (1 - x) ((2 - 0.25) / 2) = Some ((1 - x) powr 0.875)"
           "py_pow x (2 - 0.25) = Some (x powr 1.75)"
    using x by (simp_all add: py_pow_nonneg)
  show ?thesis
    unfolding Chisholm_def
    by (simp only: lo go py_div_Some[OF D(2)] phase_dP_Some[OF D(1)] dlo[symmetric] dgo[symmetric]
          py_div_Some[OF lo0] py_pow_half[OF less_imp_le[OF g2]] Chisholm_B_eval[OF Gam G]
          bind.bind_lunit prod.case if_False px Let_def)
qed


lemma single_phase_ok:
  assumes "flow_ok P" "0 < flow" "0 < rho" "0 < mu" "0 < D" "0 \<le> roughness" "0 < L"
  obtains v Rn fd where
    "phase_flow P flow rho mu D roughness = Some (v, Rn, fd)"
    "single_phase_dP P flow rho mu D roughness L = Some (fd * L / D * (0.5 * rho * v ^ 2))"
    "0 < fd * L / D * (0.5 * rho * v ^ 2)" "0 < v" "0 < Rn" "0 < fd"
    "v = flow / rho / (pi / 4 * D ^ 2)"
proof -
  obtain Rn fd where pf:
    "phase_flow P flow rho mu D roughness = Some (flow / rho / (pi / 4 * D ^ 2), Rn, fd)"
    "0 < Rn" "0 < fd"
    using phase_flow_ok[OF assms(1-6)] by blast
  let ?v = "flow / rho / (pi / 4 * D ^ 2)"
  have v: "0 < ?v" using assms(2,3,5) by simp
  have D: "D \<noteq> 0" using assms(5) by simp
  have sp: "single_phase_dP P flow rho mu D roughness L = Some (fd * L / D * (0.5 * rho * ?v ^ 2))"
    unfolding single_phase_dP_def pf(1) by (simp only: bind.bind_lunit prod.case phase_dP_Some[OF D])
  have "0 < fd * L / D" using pf(3) assms(5,7) by simp
  moreover have "0 < 0.5 * rho * ?v ^ 2"
    using zero_less_power[OF v, of 2] assms(3) by (intro mult_pos_pos) simp_all
  ultimately have "0 < fd * L / D * (0.5 * rho * ?v ^ 2)" by (rule mult_pos_pos)
  then show ?thesis using that[OF pf(1) sp _ v pf(2,3)] by blast
qed


lemma Chisholm_x0:
  assumes "flow_ok P" "0 < m" "0 < rhol" "0 < rhog" "0 < mul" "0 < mug" "0 < D"
    "0 \<le> roughness" "0 < L"
  shows "Chisholm P m 0 rhol rhog mul mug D roughness L False =
           single_phase_dP P m rhol mul D roughness L"
proof -
  obtain v_lo R_lo fd_lo where lo:
    "phase_flow P m rhol mul D roughness = Some (v_lo, R_lo, fd_lo)"
    "single_phase_dP P m rhol mul D roughness L = Some (fd_lo * L / D * (0.5 * rhol * v_lo ^ 2))"
    "0 < fd_lo * L / D * (0.5 * rhol * v_lo ^ 2)"
    using single_phase_ok[OF assms(1,2,3,5,7,8,9)] by blast
  obtain v_go R_go fd_go where go:
    "phase_flow P m rhog mug D roughness = Some (v_go, R_go, fd_go)"
    "0 < fd_go * L / D * (0.5 * rhog * v_go ^ 2)"
    using single_phase_ok[OF assms(1,2,4,6,7,8,9)] by blast
  show ?thesis
    unfolding Chisholm_value[OF lo(1) go(1) refl refl lo(3) go(2) assms(2,7) order_refl zero_le_one] lo(2)
    by simp
qed

lemma Chisholm_x1:
  assumes "flow_ok P" "0 < m" "0 < rhol" "0 < rhog" "0 < mul" "0 < mug" "0 < D"
    "0 \<le> roughness" "0 < L"
  shows "Chisholm P m 1 rhol rhog mul mug D roughness L False =
           single_phase_dP P m rhog mug D roughness L"
proof -
  obtain v_lo R_lo fd_lo where lo:
    "phase_flow P m rhol mul D roughness = Some (v_lo, R_lo, fd_lo)"
    "0 < fd_lo * L / D * (0.5 * rhol * v_lo ^ 2)"
    using single_phase_ok[OF assms(1,2,3,5,7,8,9)] by blast
  obtain v_go R_go fd_go where go:
    "phase_flow P m rhog mug D roughness = Some (v_go, R_go, fd_go)"
    "single_phase_dP P m rhog mug D roughness L = Some (fd_go * L / D * (0.5 * rhog * v_go ^ 2))"
    "0 < fd_go * L / D * (0.5 * rhog * v_go ^ 2)"
    using single_phase_ok[OF assms(1,2,4,6,7,8,9)] by blast
  define dlo where "dlo = fd_lo * L / D * (0.5 * rhol * v_lo ^ 2)"
  define dgo where "dgo = fd_go * L / D * (0.5 * rhog * v_go ^ 2)"
  have p: "0 < dlo" "0 < dgo" using lo(2) go(3) by (simp_all add: dlo_def dgo_def)
  have "Chisholm P m 1 rhol rhog mul mug D roughness L False =
     Some ((1 + ((sqrt (dgo / dlo)) ^ 2 - 1) *
              (B_documented (sqrt (dgo / dlo)) (m / (pi / 4 * D ^ 2)) * 1 powr 0.875 * (1 - 1) powr 0.875
               + 1 powr 1.75)) * dlo)"
    by (rule Chisholm_value[OF lo(1) go(1) dlo_def dgo_def p assms(2,7)]) simp_all
  also have "\<dots> = Some dgo" using p by simp
  finally show ?thesis unfolding go(2) dgo_def .
qed

text \<open>
  C2: with \<open>rough_correction\<close> false, Chisholm takes
  \<open>\<Gamma> = \<surd>(dP_go/dP_lo)\<close> and \<open>G_tp = m/(\<pi>/4 D\<^sup>2)\<close>, and the coefficient
  \<open>B\<close> of its multiplier is the one the documented table gives for them,
  with the documented closed and open bounds.
\<close>

theorem Chisholm_B_table:
  assumes "flow_ok P" "0 < m" "0 < rhol" "0 < rhog" "0 < mul" "0 < mug" "0 < D"
    "0 \<le> roughness" "0 < L" "0 \<le> x" "x \<le> 1"
  shows "\<exists>dP_lo dP_go.
     single_phase_dP P m rhol mul D roughness L = Some dP_lo \<and>
     single_phase_dP P m rhog mug D roughness L = Some dP_go \<and>
     Chisholm P m x rhol rhog mul mug D roughness L False =
       Some ((1 + ((sqrt (dP_go / dP_lo)) ^ 2 - 1) *
                (B_documented (sqrt (dP_go / dP_lo)) (m / (pi / 4 * D ^ 2))
                   * x powr 0.875 * (1 - x) powr 0.875
                 + x powr 1.75)) * dP_lo)"
proof -
  obtain v_lo R_lo fd_lo where lo:
    "phase_flow P m rhol mul D roughness = Some (v_lo, R_lo, fd_lo)"
    "single_phase_dP P m rhol mul D roughness L = Some (fd_lo * L / D * (0.5 * rhol * v_lo ^ 2))"
    "0 < fd_lo * L / D * (0.5 * rhol * v_lo ^ 2)"
    using single_phase_ok[OF assms(1,2,3,5,7,8,9)] by blast
  obtain v_go R_go fd_go where go:
    "phase_flow P m rhog mug D roughness = Some (v_go, R_go, fd_go)"
    "single_phase_dP P m rhog mug D roughness L = Some (fd_go * L / D * (0.5 * rhog * v_go ^ 2))"
    "0 < fd_go * L / D * (0.5 * rhog * v_go ^ 2)"
    using single_phase_ok[OF assms(1,2,4,6,7,8,9)] by blast
  show ?thesis
    using lo(2) go(2)
      Chisholm_value[OF lo(1) go(1) refl refl lo(3) go(3) assms(2,7,10,11)]
    by blast
qed

theorem Chisholm_B_table_witness:
  "flow_ok std \<and>
   (\<exists>dP_lo dP_go.
     single_phase_dP std 0.0005 900 1 0.05 0 1 = Some dP_lo \<and>
     single_phase_dP std 0.0005 1.2 0.000018 0.05 0 1 = Some dP_go \<and>
     Chisholm std 0.0005 0.1 900 1.2 1 0.000018 0.05 0 1 False =
       Some ((1 + ((sqrt (dP_go / dP_lo)) ^ 2 - 1) *
                (B_documented (sqrt (dP_go / dP_lo)) (0.0005 / (pi / 4 * 0.05 ^ 2))
                   * 0.1 powr 0.875 * (1 - 0.1) powr 0.875
                 + 0.1 powr 1.75)) * dP_lo))"
proof (rule conjI[OF std_flow_ok])
  show "\<exists>dP_lo dP_go.
     single_phase_dP std 0.0005 900 1 0.05 0 1 = Some dP_lo \<and>
     single_phase_dP std 0.0005 1.2 0.000018 0.05 0 1 = Some dP_go \<and>
     Chisholm std 0.0005 0.1 900 1.2 1 0.000018 0.05 0 1 False =
       Some ((1 + ((sqrt (dP_go / dP_lo)) ^ 2 - 1) *
                (B_documented (sqrt (dP_go / dP_lo)) (0.0005 / (pi / 4 * 0.05 ^ 2))
                   * 0.1 powr 0.875 * (1 - 0.1) powr 0.875
                 + 0.1 powr 1.75)) * dP_lo)"
    by (rule Chisholm_B_table[OF std_flow_ok]) simp_all
qed

section \<open>Theissing at the endpoints\<close>

lemma Theissing_x0:
  assumes "flow_ok P" "0 < m" "0 < rhol" "0 < rhog" "0 < mul" "0 < mug" "0 < D"
    "0 \<le> roughness" "0 < L"
  shows "Theissing P m 0 rhol rhog mul mug D roughness L =
           single_phase_dP P m rhol mul D roughness L"
proof -
  obtain v_lo R_lo fd_lo where lo:
    "phase_flow P m rhol mul D roughness = Some (v_lo, R_lo, fd_lo)"
    "single_phase_dP P m rhol mul D roughness L = Some (fd_lo * L / D * (0.5 * rhol * v_lo ^ 2))"
    using single_phase_ok[OF assms(1,2,3,5,7,8,9)] by blast
  obtain v_go R_go fd_go where go:
    "phase_flow P m rhog mug D roughness = Some (v_go, R_go, fd_go)"
    using single_phase_ok[OF assms(1,2,4,6,7,8,9)] by blast
  have D: "D \<noteq> 0" using assms(7) by simp
  show ?thesis
    unfolding Theissing_def lo go
    by (simp only: bind.bind_lunit prod.case phase_dP_Some[OF D] simp_thms if_True)
qed

lemma Theissing_x1:
  assumes "flow_ok P" "0 < m" "0 < rhol" "0 < rhog" "0 < mul" "0 < mug" "0 < D"
    "0 \<le> roughness" "0 < L"
  shows "Theissing P m 1 rhol rhog mul mug D roughness L =
           single_phase_dP P m rhog mug D roughness L"
proof -
  obtain v_lo R_lo fd_lo where lo:
    "phase_flow P m rhol mul D roughness = Some (v_lo, R_lo, fd_lo)"
    using single_phase_ok[OF assms(1,2,3,5,7,8,9)] by blast
  obtain v_go R_go fd_go where go:
    "phase_flow P m rhog mug D roughness = Some (v_go, R_go, fd_go)"
    "single_phase_dP P m rhog mug D roughness L = Some (fd_go * L / D * (0.5 * rhog * v_go ^ 2))"
    using single_phase_ok[OF assms(1,2,4,6,7,8,9)] by blast
  have D: "D \<noteq> 0" using assms(7) by simp
  have ne: "((1::real) = 0) = False" by simp
  show ?thesis
    unfolding Theissing_def lo go
    by (simp only: bind.bind_lunit prod.case phase_dP_Some[OF D] ne simp_thms if_False if_True)
qed

section \<open>Muller-Steinhagen and Heck, Baroczy-Chisholm\<close>

lemma MSH_value:
  assumes lo: "phase_flow P m rhol mul D roughness = Some (v_lo, R_lo, fd_lo)"
      and go: "phase_flow P m rhog mug D roughness = Some (v_go, R_go, fd_go)"
      and dlo: "dP_lo = fd_lo * L / D * (0.5 * rhol * v_lo ^ 2)"
      and dgo: "dP_go = fd_go * L / D * (0.5 * rhog * v_go ^ 2)"
      and D: "D \<noteq> 0" and x: "x \<le> 1"
  shows "Muller_Steinhagen_Heck P m x rhol rhog mul mug D roughness L =
     Some ((dP_lo + 2 * (dP_go - dP_lo) * x) * (1 - x) powr (1 / 3) + dP_go * x ^ 3)"
proof -
  have px: "py_pow (1 - x) (1 / 3) = Some ((1 - x) powr (1 / 3))"
    using x by (simp add: py_pow_def)
  show ?thesis
    unfolding Muller_Steinhagen_Heck_def
    by (simp only: lo go phase_dP_Some[OF D] dlo[symmetric] dgo[symmetric]
          bind.bind_lunit prod.case px Let_def)
qed

lemma Baroczy_B_eval:
  assumes "0 < Gamma" "0 < G_tp"
  shows "\<exists>B. 0 \<le> B \<and>
         (if Gamma \<le> 9.5 then do { s \<leftarrow> py_pow G_tp (- 0.5); Some (55 * s) }
           else if Gamma \<le> 28 then do { s \<leftarrow> py_pow G_tp (- 0.5); py_div (520 * s) Gamma }
           else do { s \<leftarrow> py_pow G_tp (- 0.5); py_div (15000 * s) (Gamma ^ 2) })
         = Some B"
  using assms unfolding py_pow_neg_half[OF assms(2)] by (simp add: py_div_def)

lemma Baroczy_value:
  assumes lo: "phase_flow P m rhol mul D roughness = Some (v_lo, R_lo, fd_lo)"
      and go: "phase_flow P m rhog mug D roughness = Some (v_go, R_go, fd_go)"
      and dlo: "dP_lo = fd_lo * L / D * (0.5 * rhol * v_lo ^ 2)"
      and dgo: "dP_go = fd_go * L / D * (0.5 * rhog * v_go ^ 2)"
      and pos: "0 < dP_lo" "0 < dP_go" "0 < m" "0 < D"
      and x: "0 \<le> x" "x \<le> 1"
  shows "\<exists>B. 0 \<le> B \<and> Baroczy_Chisholm P m x rhol rhog mul mug D roughness L =
     Some ((1 + ((sqrt (dP_go / dP_lo)) ^ 2 - 1) *
              (B * x powr 0.875 * (1 - x) powr 0.875 + x powr 1.75)) * dP_lo)"
proof -
  have D: "D \<noteq> 0" "pi / 4 * D ^ 2 \<noteq> 0" using pos by simp_all
  have G: "0 < m / (pi / 4 * D ^ 2)" using pos by simp
  have g2: "0 < dP_go / dP_lo" using pos by simp
  then have Gam: "0 < sqrt (dP_go / dP_lo)" by simp
  have lo0: "dP_lo \<noteq> 0" using pos by simp
  have px: "py_pow x ((2 - 0.25) / 2) = Some (x powr 0.875)"
           "py_pow (1 - x) ((2 - 0.25) / 2) = Some ((1 - x) powr 0.875)"
           "py_pow x (2 - 0.25) = Some (x powr 1.75)"
    using x by (simp_all add: py_pow_nonneg)
  obtain B where B: "0 \<le> B"
     "(if sqrt (dP_go / dP_lo) \<le> 9.5 then do { s \<leftarrow> py_pow (m / (pi / 4 * D ^ 2)) (- 0.5); Some (55 * s) }
           else if sqrt (dP_go / dP_lo) \<le> 28 then do { s \<leftarrow> py_pow (m / (pi / 4 * D ^ 2)) (- 0.5); py_div (520 * s) (sqrt (dP_go / dP_lo)) }
           else do { s \<leftarrow> py_pow (m / (pi / 4 * D ^ 2)) (- 0.5); py_div (15000 * s) ((sqrt (dP_go / dP_lo)) ^ 2) })
         = Some B"
    using Baroczy_B_eval[OF Gam G] by blast
  have "Baroczy_Chisholm P m x rhol rhog mul mug D roughness L =
     Some ((1 + ((sqrt (dP_go / dP_lo)) ^ 2 - 1) *
              (B * x powr 0.875 * (1 - x) powr 0.875 + x powr 1.75)) * dP_lo)"
    unfolding Baroczy_Chisholm_def
    by (simp only: lo go py_div_Some[OF D(2)] phase_dP_Some[OF D(1)] dlo[symmetric] dgo[symmetric]
          py_div_Some[OF lo0] py_pow_half[OF less_imp_le[OF g2]] B(2)
          bind.bind_lunit prod.case px Let_def)
  then show ?thesis using B(1) by blast
qed


lemma MSH_x0:
  assumes "flow_ok P" "0 < m" "0 < rhol" "0 < rhog" "0 < mul" "0 < mug" "0 < D"
    "0 \<le> roughness" "0 < L"
  shows "Muller_Steinhagen_Heck P m 0 rhol rhog mul mug D roughness L =
           single_phase_dP P m rhol mul D roughness L"
proof -
  obtain v_lo R_lo fd_lo where lo:
    "phase_flow P m rhol mul D roughness = Some (v_lo, R_lo, fd_lo)"
    "single_phase_dP P m rhol mul D roughness L = Some (fd_lo * L / D * (0.5 * rhol * v_lo ^ 2))"
    using single_phase_ok[OF assms(1,2,3,5,7,8,9)] by blast
  obtain v_go R_go fd_go where go:
    "phase_flow P m rhog mug D roughness = Some (v_go, R_go, fd_go)"
    using single_phase_ok[OF assms(1,2,4,6,7,8,9)] by blast
  have D: "D \<noteq> 0" using assms(7) by simp
  show ?thesis
    unfolding MSH_value[OF lo(1) go refl refl D zero_le_one] lo(2) by simp
qed

lemma MSH_x1:
  assumes "flow_ok P" "0 < m" "0 < rhol" "0 < rhog" "0 < mul" "0 < mug" "0 < D"
    "0 \<le> roughness" "0 < L"
  shows "Muller_Steinhagen_Heck P m 1 rhol rhog mul mug D roughness L =
           single_phase_dP P m rhog mug D roughness L"
proof -
  obtain v_lo R_lo fd_lo where lo:
    "phase_flow P m rhol mul D roughness = Some (v_lo, R_lo, fd_lo)"
    using single_phase_ok[OF assms(1,2,3,5,7,8,9)] by blast
  obtain v_go R_go fd_go where go:
    "phase_flow P m rhog mug D roughness = Some (v_go, R_go, fd_go)"
    "single_phase_dP P m rhog mug D roughness L = Some (fd_go * L / D * (0.5 * rhog * v_go ^ 2))"
    using single_phase_ok[OF assms(1,2,4,6,7,8,9)] by blast
  have D: "D \<noteq> 0" using assms(7) by simp
  show ?thesis
    unfolding MSH_value[OF lo(1) go(1) refl refl D order_refl] go(2) by simp
qed

lemma Baroczy_x0:
  assumes "flow_ok P" "0 < m" "0 < rhol" "0 < rhog" "0 < mul" "0 < mug" "0 < D"
    "0 \<le> roughness" "0 < L"
  shows "Baroczy_Chisholm P m 0 rhol rhog mul mug D roughness L =
           single_phase_dP P m rhol mul D roughness L"
proof -
  obtain v_lo R_lo fd_lo where lo:
    "phase_flow P m rhol mul D roughness = Some (v_lo, R_lo, fd_lo)"
    "single_phase_dP P m rhol mul D roughness L = Some (fd_lo * L / D * (0.5 * rhol * v_lo ^ 2))"
    "0 < fd_lo * L / D * (0.5 * rhol * v_lo ^ 2)"
    using single_phase_ok[OF assms(1,2,3,5,7,8,9)] by blast
  obtain v_go R_go fd_go where go:
    "phase_flow P m rhog mug D roughness = Some (v_go, R_go, fd_go)"
    "0 < fd_go * L / D * (0.5 * rhog * v_go ^ 2)"
    using single_phase_ok[OF assms(1,2,4,6,7,8,9)] by blast
  obtain B where "Baroczy_Chisholm P m 0 rhol rhog mul mug D roughness L =
     Some ((1 + ((sqrt (fd_go * L / D * (0.5 * rhog * v_go ^ 2) / (fd_lo * L / D * (0.5 * rhol * v_lo ^ 2)))) ^ 2 - 1) *
              (B * 0 powr 0.875 * (1 - 0) powr 0.875 + 0 powr 1.75)) * (fd_lo * L / D * (0.5 * rhol * v_lo ^ 2)))"
    using Baroczy_value[OF lo(1) go(1) refl refl lo(3) go(2) assms(2,7) order_refl zero_le_one]
    by blast
  then show ?thesis unfolding lo(2) by simp
qed

lemma Baroczy_x1:
  assumes "flow_ok P" "0 < m" "0 < rhol" "0 < rhog" "0 < mul" "0 < mug" "0 < D"
    "0 \<le> roughness" "0 < L"
  shows "Baroczy_Chisholm P m 1 rhol rhog mul mug D roughness L =
           single_phase_dP P m rhog mug D roughness L"
proof -
  obtain v_lo R_lo fd_lo where lo:
    "phase_flow P m rhol mul D roughness = Some (v_lo, R_lo, fd_lo)"
    "0 < fd_lo * L / D * (0.5 * rhol * v_lo ^ 2)"
    using single_phase_ok[OF assms(1,2,3,5,7,8,9)] by blast
  obtain v_go R_go fd_go where go:
    "phase_flow P m rhog mug D roughness = Some (v_go, R_go, fd_go)"
    "single_phase_dP P m rhog mug D roughness L = Some (fd_go * L / D * (0.5 * rhog * v_go ^ 2))"
    "0 < fd_go * L / D * (0.5 * rhog * v_go ^ 2)"
    using single_phase_ok[OF assms(1,2,4,6,7,8,9)] by blast
  define dlo where "dlo = fd_lo * L / D * (0.5 * rhol * v_lo ^ 2)"
  define dgo where "dgo = fd_go * L / D * (0.5 * rhog * v_go ^ 2)"
  have p: "0 < dlo" "0 < dgo" using lo(2) go(3) by (simp_all add: dlo_def dgo_def)
  have x1: "(0::real) \<le> 1" "(1::real) \<le> 1" by simp_all
  obtain B where "Baroczy_Chisholm P m 1 rhol rhog mul mug D roughness L =
     Some ((1 + ((sqrt (dgo / dlo)) ^ 2 - 1) *
              (B * 1 powr 0.875 * (1 - 1) powr 0.875 + 1 powr 1.75)) * dlo)"
    using Baroczy_value[OF lo(1) go(1) dlo_def dgo_def p assms(2,7) x1] by blast
  also have "\<dots> = Some dgo" using p by simp
  finally show ?thesis unfolding go(2) dgo_def .
qed

section \<open>Friedel\<close>

lemma mixture_ok_values:
  assumes "mixture_ok P" "0 \<le> x" "x \<le> 1" "0 < rhol" "0 < rhog" "0 < m" "0 < D" "0 < sigma"
  obtains a Fr We where
    "homogeneous P x rhol rhog = Some a" "0 \<le> a" "a \<le> 1"
    "0 < rhol * (1 - a) + rhog * a"
    "Froude P (m / (rhol * (1 - a) + rhog * a) / (pi / 4 * D ^ 2)) D True = Some Fr" "0 < Fr"
    "Weber P (m / (rhol * (1 - a) + rhog * a) / (pi / 4 * D ^ 2)) D (rhol * (1 - a) + rhog * a) sigma
       = Some We" "0 < We"
proof -
  from assms(1-5) obtain a where a: "homogeneous P x rhol rhog = Some a" "0 \<le> a" "a \<le> 1"
    unfolding mixture_ok_def by blast
  define rh where "rh = rhol * (1 - a) + rhog * a"
  have rh: "0 < rh"
  proof (cases "a = 0")
    case True
    then show ?thesis using assms(4) by (simp add: rh_def)
  next
    case False
    then have "0 < rhog * a" using a(2) assms(5) by simp
    moreover have "0 \<le> rhol * (1 - a)" using a(3) assms(4) by simp
    ultimately show ?thesis unfolding rh_def by linarith
  qed
  define V where "V = m / rh / (pi / 4 * D ^ 2)"
  have V: "0 < V" using rh assms(6,7) by (simp add: V_def)
  from assms(1) V assms(7) obtain Fr where Fr: "Froude P V D True = Some Fr" "0 < Fr"
    unfolding mixture_ok_def by blast
  from assms(1) V assms(7,8) rh obtain We where We: "Weber P V D rh sigma = Some We" "0 < We"
    unfolding mixture_ok_def by blast
  show ?thesis
    using that[OF a] rh Fr We unfolding V_def rh_def by blast
qed

lemma Friedel_value:
  assumes lo: "phase_flow P m rhol mul D roughness = Some (v_lo, R_lo, fd_lo)"
      and go: "phase_flow P m rhog mug D roughness = Some (v_go, R_go, fd_go)"
      and hom: "homogeneous P x rhol rhog = Some a"
      and rh: "0 < rhol * (1 - a) + rhog * a"
      and Fr: "Froude P (m / (rhol * (1 - a) + rhog * a) / (pi / 4 * D ^ 2)) D True = Some Fr" "0 < Fr"
      and We: "Weber P (m / (rhol * (1 - a) + rhog * a) / (pi / 4 * D ^ 2)) D
                 (rhol * (1 - a) + rhog * a) sigma = Some We" "0 < We"
      and pos: "0 < rhol" "0 < rhog" "0 < mul" "0 < mug" "0 < D" "0 < fd_lo"
      and mu: "mug \<le> mul" and x: "0 \<le> x" "x \<le> 1"
  shows "Friedel P m x rhol rhog mul mug sigma D roughness L =
     Some (((1 - x) ^ 2 + x ^ 2 * (rhol * fd_go / (rhog * fd_lo))
            + 3.24 * (x powr 0.78 * (1 - x) powr 0.224)
                * ((rhol / rhog) powr 0.91 * (mug / mul) powr 0.19 * (1 - mug / mul) powr 0.7)
                / (Fr powr 0.0454 * We powr 0.035))
           * (fd_lo * L / D * (0.5 * rhol * v_lo ^ 2)))"
proof -
  have D: "D \<noteq> 0" "pi / 4 * D ^ 2 \<noteq> 0" using pos by simp_all
  have nz: "rhog \<noteq> 0" "mul \<noteq> 0" "rhog * fd_lo \<noteq> 0" "rhol * (1 - a) + rhog * a \<noteq> 0"
    using pos rh by simp_all
  have px: "py_pow x 0.78 = Some (x powr 0.78)" "py_pow (1 - x) 0.224 = Some ((1 - x) powr 0.224)"
    using x by (simp_all add: py_pow_def)
  have ph: "py_pow (rhol / rhog) 0.91 = Some ((rhol / rhog) powr 0.91)"
    "py_pow (mug / mul) 0.19 = Some ((mug / mul) powr 0.19)"
    using divide_pos_pos[OF pos(1,2)] divide_pos_pos[OF pos(4,3)] by (simp_all add: py_pow_def)
  have "0 \<le> 1 - mug / mul" using mu pos by simp
  then have ph3: "py_pow (1 - mug / mul) 0.7 = Some ((1 - mug / mul) powr 0.7)"
    by (simp add: py_pow_def)
  have pf: "py_pow Fr 0.0454 = Some (Fr powr 0.0454)" "py_pow We 0.035 = Some (We powr 0.035)"
    using Fr(2) We(2) by (simp_all add: py_pow_def)
  have pp: "Fr powr 0.0454 * We powr 0.035 \<noteq> 0" using Fr(2) We(2) by simp
  show ?thesis
    unfolding Friedel_def
    by (simp only: lo go hom Fr(1) We(1) phase_dP_Some[OF D(1)] py_div_Some[OF D(2)]
          py_div_Some[OF nz(1)] py_div_Some[OF nz(2)] py_div_Some[OF nz(3)] py_div_Some[OF nz(4)]
          px ph ph3 pf py_div_Some[OF pp] bind.bind_lunit prod.case Let_def)
qed

lemma Friedel_x0:
  assumes "flow_ok P" "mixture_ok P" "0 < m" "0 < rhol" "0 < rhog" "0 < mul" "0 < mug" "0 < D"
    "0 \<le> roughness" "0 < L" "0 < sigma" "mug \<le> mul"
  shows "Friedel P m 0 rhol rhog mul mug sigma D roughness L =
           single_phase_dP P m rhol mul D roughness L"
proof -
  obtain v_lo R_lo fd_lo where lo:
    "phase_flow P m rhol mul D roughness = Some (v_lo, R_lo, fd_lo)"
    "single_phase_dP P m rhol mul D roughness L = Some (fd_lo * L / D * (0.5 * rhol * v_lo ^ 2))"
    "0 < fd_lo"
    using single_phase_ok[OF assms(1,3,4,6,8,9,10)] by blast
  obtain v_go R_go fd_go where go:
    "phase_flow P m rhog mug D roughness = Some (v_go, R_go, fd_go)"
    using single_phase_ok[OF assms(1,3,5,7,8,9,10)] by blast
  obtain a Fr We where mx:
    "homogeneous P 0 rhol rhog = Some a"
    "0 < rhol * (1 - a) + rhog * a"
    "Froude P (m / (rhol * (1 - a) + rhog * a) / (pi / 4 * D ^ 2)) D True = Some Fr" "0 < Fr"
    "Weber P (m / (rhol * (1 - a) + rhog * a) / (pi / 4 * D ^ 2)) D (rhol * (1 - a) + rhog * a) sigma
       = Some We" "0 < We"
    using mixture_ok_values[OF assms(2) order_refl zero_le_one assms(4,5,3,8,11)] by blast
  show ?thesis
    unfolding Friedel_value[OF lo(1) go mx assms(4,5,6,7,8) lo(3) assms(12) order_refl zero_le_one]
      lo(2)
    by simp
qed

lemma Friedel_x1:
  assumes "flow_ok P" "mixture_ok P" "0 < m" "0 < rhol" "0 < rhog" "0 < mul" "0 < mug" "0 < D"
    "0 \<le> roughness" "0 < L" "0 < sigma" "mug \<le> mul"
  shows "Friedel P m 1 rhol rhog mul mug sigma D roughness L =
           single_phase_dP P m rhog mug D roughness L"
proof -
  obtain v_lo R_lo fd_lo where lo:
    "phase_flow P m rhol mul D roughness = Some (v_lo, R_lo, fd_lo)"
    "0 < fd_lo" "v_lo = m / rhol / (pi / 4 * D ^ 2)"
    using single_phase_ok[OF assms(1,3,4,6,8,9,10)] by blast
  obtain v_go R_go fd_go where go:
    "phase_flow P m rhog mug D roughness = Some (v_go, R_go, fd_go)"
    "single_phase_dP P m rhog mug D roughness L = Some (fd_go * L / D * (0.5 * rhog * v_go ^ 2))"
    "v_go = m / rhog / (pi / 4 * D ^ 2)"
    using single_phase_ok[OF assms(1,3,5,7,8,9,10)] by blast
  have x1: "(0::real) \<le> 1" "(1::real) \<le> 1" by simp_all
  obtain a Fr We where mx:
    "homogeneous P 1 rhol rhog = Some a"
    "0 < rhol * (1 - a) + rhog * a"
    "Froude P (m / (rhol * (1 - a) + rhog * a) / (pi / 4 * D ^ 2)) D True = Some Fr" "0 < Fr"
    "Weber P (m / (rhol * (1 - a) + rhog * a) / (pi / 4 * D ^ 2)) D (rhol * (1 - a) + rhog * a) sigma
       = Some We" "0 < We"
    using mixture_ok_values[OF assms(2) x1 assms(4,5,3,8,11)] by blast
  have alg: "rhol * fd_go / (rhog * fd_lo) * (fd_lo * L / D * (0.5 * rhol * v_lo ^ 2))
      = fd_go * L / D * (0.5 * rhog * v_go ^ 2)"
    unfolding lo(3) go(3) using assms(4,5,8) lo(2) by (simp add: field_simps power2_eq_square)
  show ?thesis
    unfolding Friedel_value[OF lo(1) go(1) mx assms(4,5,6,7,8) lo(2) assms(12) x1] go(2)
    using alg by simp
qed

text \<open>Friedel at \<open>x = 0\<close> with a gas more viscous than the liquid: the factor
  \<open>(1 - \<mu>\<^sub>g/\<mu>\<^sub>l)\<^sup>0\<^sup>.\<^sup>7\<close> has a negative base and the call has no real result.\<close>

lemma Friedel_viscous_gas:
  assumes "0 < mul" "mul < mug"
  shows "Friedel P m x rhol rhog mul mug sigma D roughness L = None"
proof -
  have nz: "mul \<noteq> 0" using assms by simp
  have "1 - mug / mul < 0" using assms by simp
  moreover have "(0.7::real) \<noteq> of_int \<lfloor>0.7::real\<rfloor>" by simp
  ultimately have h3: "py_pow (1 - mug / mul) 0.7 = None" by (rule py_pow_negative_base)
  show ?thesis
    unfolding Friedel_def
    by (simp add: py_div_Some[OF nz] h3 Let_def split: Option.bind_splits prod.splits)
qed

lemma std_mixture_ok: "mixture_ok std"
proof -
  have h: "\<exists>a. homogeneous std x rhol rhog = Some a \<and> 0 \<le> a \<and> a \<le> 1"
    if "0 \<le> x" "x \<le> 1" "0 < rhol" "0 < rhog" for x rhol rhog :: real
  proof -
    have a: "0 \<le> x / rhog" using that by simp
    have b: "0 \<le> (1 - x) / rhol" using that by simp
    have s: "0 < x / rhog + (1 - x) / rhol"
    proof (cases "x = 0")
      case True then show ?thesis using that by simp
    next
      case False
      then have "0 < x / rhog" using that by simp
      then show ?thesis using b by linarith
    qed
    have "homogeneous std x rhol rhog = Some (x / rhog / (x / rhog + (1 - x) / rhol))"
      using that s by (simp add: std_def py_div_def)
    moreover have "0 \<le> x / rhog / (x / rhog + (1 - x) / rhol)"
      by (rule divide_nonneg_pos[OF a s])
    moreover have "x / rhog / (x / rhog + (1 - x) / rhol) \<le> 1"
      unfolding divide_le_eq_1 using b s by simp
    ultimately show ?thesis by blast
  qed
  have f: "\<exists>Fr. Froude std V L True = Some Fr \<and> 0 < Fr" if "0 < V" "0 < L" for V L :: real
    using that by (simp add: std_def py_div_def g_std_def)
  have w: "\<exists>We. Weber std V L rho sigma = Some We \<and> 0 < We"
    if "0 < V" "0 < L" "0 < rho" "0 < sigma" for V L rho sigma :: real
    using that by (simp add: std_def py_div_def)
  show ?thesis unfolding mixture_ok_def using h f w by blast
qed

text \<open>
  C3 (amended): at quality \<open>x = 0\<close> Chisholm (without the roughness
  correction), Baroczy-Chisholm, Muller-Steinhagen-Heck and Theissing return
  the liquid-only single-phase drop, and at \<open>x = 1\<close> the gas-only one, for every
  valid input; Friedel does so when moreover the gas is not more viscous than
  the liquid (\<open>\<mu>\<^sub>g \<le> \<mu>\<^sub>l\<close>). The single-phase drops are returned values.
\<close>

theorem endpoints_single_phase:
  assumes "flow_ok P" "0 < m" "0 < rhol" "0 < rhog" "0 < mul" "0 < mug" "0 < D"
    "0 \<le> roughness" "0 < L"
  shows "single_phase_dP P m rhol mul D roughness L \<noteq> None \<and>
     single_phase_dP P m rhog mug D roughness L \<noteq> None \<and>
     Chisholm P m 0 rhol rhog mul mug D roughness L False
       = single_phase_dP P m rhol mul D roughness L \<and>
     Chisholm P m 1 rhol rhog mul mug D roughness L False
       = single_phase_dP P m rhog mug D roughness L \<and>
     Baroczy_Chisholm P m 0 rhol rhog mul mug D roughness L
       = single_phase_dP P m rhol mul D roughness L \<and>
     Baroczy_Chisholm P m 1 rhol rhog mul mug D roughness L
       = single_phase_dP P m rhog mug D roughness L \<and>
     Muller_Steinhagen_Heck P m 0 rhol rhog mul mug D roughness L
       = single_phase_dP P m rhol mul D roughness L \<and>
     Muller_Steinhagen_Heck P m 1 rhol rhog mul mug D roughness L
       = single_phase_dP P m rhog mug D roughness L \<and>
     Theissing P m 0 rhol rhog mul mug D roughness L
       = single_phase_dP P m rhol mul D roughness L \<and>
     Theissing P m 1 rhol rhog mul mug D roughness L
       = single_phase_dP P m rhog mug D roughness L \<and>
     (mixture_ok P \<and> 0 < sigma \<and> mug \<le> mul \<longrightarrow>
        Friedel P m 0 rhol rhog mul mug sigma D roughness L
          = single_phase_dP P m rhol mul D roughness L \<and>
        Friedel P m 1 rhol rhog mul mug sigma D roughness L
          = single_phase_dP P m rhog mug D roughness L)"
proof -
  have lo: "single_phase_dP P m rhol mul D roughness L \<noteq> None"
    using single_phase_ok[OF assms(1,2,3,5,7,8,9)] by (metis option.distinct(1))
  have go: "single_phase_dP P m rhog mug D roughness L \<noteq> None"
    using single_phase_ok[OF assms(1,2,4,6,7,8,9)] by (metis option.distinct(1))
  show ?thesis
    using lo go Chisholm_x0[OF assms] Chisholm_x1[OF assms] Baroczy_x0[OF assms]
      Baroczy_x1[OF assms] MSH_x0[OF assms] MSH_x1[OF assms] Theissing_x0[OF assms]
      Theissing_x1[OF assms]
      Friedel_x0[OF assms(1) _ assms(2-9)] Friedel_x1[OF assms(1) _ assms(2-9)]
    by blast
qed

theorem endpoints_single_phase_witness:
  "flow_ok std \<and> mixture_ok std \<and>
     single_phase_dP std 0.0005 900 1 0.05 0 1 \<noteq> None \<and>
     single_phase_dP std 0.0005 1.2 0.000018 0.05 0 1 \<noteq> None \<and>
     Chisholm std 0.0005 0 900 1.2 1 0.000018 0.05 0 1 False
       = single_phase_dP std 0.0005 900 1 0.05 0 1 \<and>
     Chisholm std 0.0005 1 900 1.2 1 0.000018 0.05 0 1 False
       = single_phase_dP std 0.0005 1.2 0.000018 0.05 0 1 \<and>
     Baroczy_Chisholm std 0.0005 0 900 1.2 1 0.000018 0.05 0 1
       = single_phase_dP std 0.0005 900 1 0.05 0 1 \<and>
     Baroczy_Chisholm std 0.0005 1 900 1.2 1 0.000018 0.05 0 1
       = single_phase_dP std 0.0005 1.2 0.000018 0.05 0 1 \<and>
     Muller_Steinhagen_Heck std 0.0005 0 900 1.2 1 0.000018 0.05 0 1
       = single_phase_dP std 0.0005 900 1 0.05 0 1 \<and>
     Muller_Steinhagen_Heck std 0.0005 1 900 1.2 1 0.000018 0.05 0 1
       = single_phase_dP std 0.0005 1.2 0.000018 0.05 0 1 \<and>
     Theissing std 0.0005 0 900 1.2 1 0.000018 0.05 0 1
       = single_phase_dP std 0.0005 900 1 0.05 0 1 \<and>
     Theissing std 0.0005 1 900 1.2 1 0.000018 0.05 0 1
       = single_phase_dP std 0.0005 1.2 0.000018 0.05 0 1 \<and>
     Friedel std 0.0005 0 900 1.2 1 0.000018 0.03 0.05 0 1
       = single_phase_dP std 0.0005 900 1 0.05 0 1 \<and>
     Friedel std 0.0005 1 900 1.2 1 0.000018 0.03 0.05 0 1
       = single_phase_dP std 0.0005 1.2 0.000018 0.05 0 1"
proof -
  have v: "(0::real) < 0.0005" "(0::real) < 900" "(0::real) < 1.2" "(0::real) < 1"
    "(0::real) < 0.000018" "(0::real) < 0.05" "(0::real) \<le> 0" "(0::real) < 1"
    by simp_all
  have s: "mixture_ok std \<and> (0::real) < 0.03 \<and> (0.000018::real) \<le> 1"
    using std_mixture_ok by simp
  show ?thesis
    using endpoints_single_phase[OF std_flow_ok v, of "0.03"] s std_flow_ok
    by blast
qed

text \<open>
  The claim as stated fails for Friedel: with \<open>\<mu>\<^sub>l = 0.00001\<close> and \<open>\<mu>\<^sub>g = 0.00002\<close>
  (all arguments positive) the call at \<open>x = 0\<close> has no real result, while the
  liquid-only single-phase drop is returned.
\<close>

theorem Friedel_endpoint_counterexample:
  "Friedel std 0.0005 0 900 1.2 0.00001 0.00002 0.03 0.05 0 1 = None \<and>
   single_phase_dP std 0.0005 900 0.00001 0.05 0 1 \<noteq> None"
proof
  show "Friedel std 0.0005 0 900 1.2 0.00001 0.00002 0.03 0.05 0 1 = None"
    by (rule Friedel_viscous_gas) simp_all
  show "single_phase_dP std 0.0005 900 0.00001 0.05 0 1 \<noteq> None"
    by (rule single_phase_ok[OF std_flow_ok, of "0.0005" 900 "0.00001" "0.05" 0 1]) simp_all
qed

text \<open>
  C10: at \<open>x = 0\<close> the result of Theissing does not depend on the gas density
  and viscosity, and at \<open>x = 1\<close> it does not depend on the liquid density and
  viscosity; both calls return.
\<close>

theorem Theissing_endpoint_independence:
  assumes "flow_ok P" "0 < m" "0 < rhol" "0 < rhog" "0 < mul" "0 < mug" "0 < D"
    "0 \<le> roughness" "0 < L" "0 < rhol'" "0 < rhog'" "0 < mul'" "0 < mug'"
  shows "Theissing P m 0 rhol rhog mul mug D roughness L
           = Theissing P m 0 rhol rhog' mul mug' D roughness L \<and>
         Theissing P m 1 rhol rhog mul mug D roughness L
           = Theissing P m 1 rhol' rhog mul' mug D roughness L \<and>
         Theissing P m 0 rhol rhog mul mug D roughness L \<noteq> None \<and>
         Theissing P m 1 rhol rhog mul mug D roughness L \<noteq> None"
proof -
  have lo: "single_phase_dP P m rhol mul D roughness L \<noteq> None"
    using single_phase_ok[OF assms(1,2,3,5,7,8,9)] by (metis option.distinct(1))
  have go: "single_phase_dP P m rhog mug D roughness L \<noteq> None"
    using single_phase_ok[OF assms(1,2,4,6,7,8,9)] by (metis option.distinct(1))
  have "Theissing P m 0 rhol rhog mul mug D roughness L
           = single_phase_dP P m rhol mul D roughness L"
    by (rule Theissing_x0[OF assms(1-9)])
  moreover have "Theissing P m 0 rhol rhog' mul mug' D roughness L
           = single_phase_dP P m rhol mul D roughness L"
    by (rule Theissing_x0[OF assms(1,2,3,11,5,13,7,8,9)])
  moreover have "Theissing P m 1 rhol rhog mul mug D roughness L
           = single_phase_dP P m rhog mug D roughness L"
    by (rule Theissing_x1[OF assms(1-9)])
  moreover have "Theissing P m 1 rhol' rhog mul' mug D roughness L
           = single_phase_dP P m rhog mug D roughness L"
    by (rule Theissing_x1[OF assms(1,2,10,4,12,6,7,8,9)])
  ultimately show ?thesis using lo go by simp
qed

theorem Theissing_endpoint_independence_witness:
  "flow_ok std \<and>
   Theissing std 0.0005 0 900 1.2 1 0.000018 0.05 0 1
     = Theissing std 0.0005 0 900 50 1 0.00002 0.05 0 1 \<and>
   Theissing std 0.0005 1 900 1.2 1 0.000018 0.05 0 1
     = Theissing std 0.0005 1 1000 1.2 2 0.000018 0.05 0 1 \<and>
   Theissing std 0.0005 0 900 1.2 1 0.000018 0.05 0 1 \<noteq> None \<and>
   Theissing std 0.0005 1 900 1.2 1 0.000018 0.05 0 1 \<noteq> None"
proof (rule conjI[OF std_flow_ok])
  show "Theissing std 0.0005 0 900 1.2 1 0.000018 0.05 0 1
     = Theissing std 0.0005 0 900 50 1 0.00002 0.05 0 1 \<and>
   Theissing std 0.0005 1 900 1.2 1 0.000018 0.05 0 1
     = Theissing std 0.0005 1 1000 1.2 2 0.000018 0.05 0 1 \<and>
   Theissing std 0.0005 0 900 1.2 1 0.000018 0.05 0 1 \<noteq> None \<and>
   Theissing std 0.0005 1 900 1.2 1 0.000018 0.05 0 1 \<noteq> None"
    by (rule Theissing_endpoint_independence[OF std_flow_ok]) simp_all
qed

section \<open>Chen-Friedel\<close>

lemma Chen_Friedel_factor:
  assumes hom: "homogeneous P x rhol rhog = Some a"
      and rh: "rhol * (1 - a) + rhog * a = 1 / (x / rhog + (1 - x) / rhol)"
      and nz: "rhog \<noteq> 0" "rhol \<noteq> 0" "x / rhog + (1 - x) / rhol \<noteq> 0"
  shows "Chen_Friedel P m x rhol rhog mul mug sigma D roughness L = do {
           dP \<leftarrow> Friedel P m x rhol rhog mul mug sigma D roughness L;
           Omega \<leftarrow> Chen_Omega P m x rhol rhog mul mug sigma D roughness;
           Some (dP * Omega) }"
  unfolding Chen_Friedel_def Friedel_def Chen_Omega_def
  apply (simp only: hom rh py_div_Some[OF nz(1)] py_div_Some[OF nz(2)] py_div_Some[OF nz(3)]
      bind.bind_lunit Let_def)
  apply (simp add: split_beta cong: Option.bind_cong)
  done

lemma pos_nonzero: "0 < (t::real) \<Longrightarrow> t \<noteq> 0"
  by simp

lemma if_Some_Some: "(if c then Some a else Some b) = Some (if c then a else b)"
  by simp

lemma Chen_Omega_value:
  assumes lo: "phase_flow P m rhol mul D roughness = Some (v_lo, R_lo, fd_lo)" "0 < R_lo"
      and S: "0 < x / rhog + (1 - x) / rhol"
      and We: "Weber P (m / (1 / (x / rhog + (1 - x) / rhol)) / (pi / 4 * D ^ 2)) D
                 (1 / (x / rhog + (1 - x) / rhol)) sigma = Some We" "0 < We"
      and bond: "Bond P rhol rhog sigma D = Some b"
      and Rg: "Reynolds P (m * x / rhog / (pi / 4 * D ^ 2)) rhog mug D = Some R_g" "0 < R_g"
      and nz: "rhog \<noteq> 0" "rhol \<noteq> 0" "D \<noteq> 0"
  shows "Chen_Omega P m x rhol rhog mul mug sigma D roughness =
           Some (if b / 4 < 2.5
                 then 0.0333 * R_lo powr 0.45 / (R_g powr 0.09 * (1 + 0.5 * exp (- (b / 4))))
                 else We powr 0.2 / (2.5 + 0.06 * (b / 4)))"
    and "Omega_documented P m x rhol rhog mul mug sigma D roughness =
           Some (if b / 4 < 2.5
                 then 0.0333 * R_lo powr 0.45 / (R_g powr 0.09 * (1 + 0.4 * exp (- (b / 4))))
                 else We powr 0.2 / (2.5 + 0.06 * (b / 4)))"
proof -
  have A: "pi / 4 * D ^ 2 \<noteq> 0" using nz by simp
  have S0: "x / rhog + (1 - x) / rhol \<noteq> 0" "1 / (x / rhog + (1 - x) / rhol) \<noteq> 0"
    using S by simp_all
  have pw: "py_pow R_lo 0.45 = Some (R_lo powr 0.45)" "py_pow R_g 0.09 = Some (R_g powr 0.09)"
    "py_pow We 0.2 = Some (We powr 0.2)"
    using lo(2) Rg(2) We(2) by (simp_all add: py_pow_def)
  have e5: "py_div (0.0333 * R_lo powr 0.45) (R_g powr 0.09 * (1 + 0.5 * exp (- (b / 4))))
     = Some (0.0333 * R_lo powr 0.45 / (R_g powr 0.09 * (1 + 0.5 * exp (- (b / 4)))))"
  proof (rule py_div_Some)
    have "0 < R_g powr 0.09 * (1 + 0.5 * exp (- (b / 4)))"
      using Rg(2) by (intro mult_pos_pos add_pos_pos) simp_all
    then show "R_g powr 0.09 * (1 + 0.5 * exp (- (b / 4))) \<noteq> 0" by (rule pos_nonzero)
  qed
  have e4: "py_div (0.0333 * R_lo powr 0.45) (R_g powr 0.09 * (1 + 0.4 * exp (- (b / 4))))
     = Some (0.0333 * R_lo powr 0.45 / (R_g powr 0.09 * (1 + 0.4 * exp (- (b / 4)))))"
  proof (rule py_div_Some)
    have "0 < R_g powr 0.09 * (1 + 0.4 * exp (- (b / 4)))"
      using Rg(2) by (intro mult_pos_pos add_pos_pos) simp_all
    then show "R_g powr 0.09 * (1 + 0.4 * exp (- (b / 4))) \<noteq> 0" by (rule pos_nonzero)
  qed
  have hi: "py_div (We powr 0.2) (2.5 + 0.06 * (b / 4))
       = (if b / 4 < 2.5 then py_div (We powr 0.2) (2.5 + 0.06 * (b / 4))
          else Some (We powr 0.2 / (2.5 + 0.06 * (b / 4))))"
    by (simp add: py_div_def)
  show "Chen_Omega P m x rhol rhog mul mug sigma D roughness =
           Some (if b / 4 < 2.5
                 then 0.0333 * R_lo powr 0.45 / (R_g powr 0.09 * (1 + 0.5 * exp (- (b / 4))))
                 else We powr 0.2 / (2.5 + 0.06 * (b / 4)))"
    unfolding Chen_Omega_def
    apply (simp only: lo(1) We(1) bond Rg(1) py_div_Some[OF nz(1)] py_div_Some[OF nz(2)]
        py_div_Some[OF A] py_div_Some[OF S0(1)] py_div_Some[OF S0(2)] pw e5
        bind.bind_lunit prod.case Let_def cong: if_cong)
    apply (subst hi)
    apply (simp only: if_Some_Some if_True if_False cong: if_cong)
    done
  show "Omega_documented P m x rhol rhog mul mug sigma D roughness =
           Some (if b / 4 < 2.5
                 then 0.0333 * R_lo powr 0.45 / (R_g powr 0.09 * (1 + 0.4 * exp (- (b / 4))))
                 else We powr 0.2 / (2.5 + 0.06 * (b / 4)))"
    unfolding Omega_documented_def
    apply (simp only: lo(1) We(1) bond Rg(1) py_div_Some[OF nz(1)] py_div_Some[OF nz(2)]
        py_div_Some[OF A] py_div_Some[OF S0(1)] py_div_Some[OF S0(2)] pw e4
        bind.bind_lunit prod.case Let_def cong: if_cong)
    apply (subst hi)
    apply (simp only: if_Some_Some if_True if_False cong: if_cong)
    done
qed

lemma mix_density_pos:
  assumes "0 \<le> (x::real)" "x \<le> 1" "0 < rhol" "0 < rhog"
  shows "0 < x / rhog + (1 - x) / rhol"
proof (cases "x = 0")
  case True
  have "0 < 1 / rhol" using assms(3) by simp
  then show ?thesis unfolding True by simp
next
  case False
  then have "0 < x / rhog" using assms by simp
  moreover have "0 \<le> (1 - x) / rhol" using assms by simp
  ultimately show ?thesis by linarith
qed

lemma homogeneous_model_density:
  assumes "homogeneous_model P" "0 \<le> x" "x \<le> 1" "0 < rhol" "0 < rhog"
  obtains a where "homogeneous P x rhol rhog = Some a"
    "rhol * (1 - a) + rhog * a = 1 / (x / rhog + (1 - x) / rhol)"
proof -
  define S where "S = x / rhog + (1 - x) / rhol"
  have S: "0 < S" unfolding S_def by (rule mix_density_pos[OF assms(2-5)])
  have h: "homogeneous P x rhol rhog = Some (x / rhog / S)"
    using assms unfolding homogeneous_model_def S_def by blast
  have "S - x / rhog = (1 - x) / rhol" by (simp add: S_def)
  moreover have "1 - x / rhog / S = (S - x / rhog) / S"
    using S by (simp add: diff_divide_distrib)
  ultimately have "1 - x / rhog / S = (1 - x) / rhol / S" by simp
  then have "rhol * (1 - x / rhog / S) + rhog * (x / rhog / S) = (1 - x) / S + x / S"
    using assms(4,5) by simp
  also have "\<dots> = 1 / S" by (simp add: add_divide_distrib[symmetric])
  finally show ?thesis using that h unfolding S_def by blast
qed

lemma std_homogeneous_model: "homogeneous_model std"
proof -
  have "homogeneous std x rhol rhog = Some (x / rhog / (x / rhog + (1 - x) / rhol))"
    if "0 \<le> x" "x \<le> 1" "0 < rhol" "0 < rhog" for x rhol rhog :: real
    using that mix_density_pos[OF that] by (simp add: std_def py_div_def)
  then show ?thesis unfolding homogeneous_model_def by blast
qed

lemma Chen_Friedel_value:
  assumes lo: "phase_flow P m rhol mul D roughness = Some (v_lo, R_lo, fd_lo)" "0 < R_lo"
      and go: "phase_flow P m rhog mug D roughness = Some (v_go, R_go, fd_go)"
      and S: "0 < x / rhog + (1 - x) / rhol"
      and Fr: "Froude P (m / (1 / (x / rhog + (1 - x) / rhol)) / (pi / 4 * D ^ 2)) D True = Some Fr"
              "0 < Fr"
      and We: "Weber P (m / (1 / (x / rhog + (1 - x) / rhol)) / (pi / 4 * D ^ 2)) D
                 (1 / (x / rhog + (1 - x) / rhol)) sigma = Some We" "0 < We"
      and bond: "Bond P rhol rhog sigma D = Some b"
      and Rg: "Reynolds P (m * x / rhog / (pi / 4 * D ^ 2)) rhog mug D = Some R_g" "0 < R_g"
      and pos: "0 < rhol" "0 < rhog" "0 < mul" "0 < mug" "0 < D" "0 < fd_lo"
      and mu: "mug \<le> mul" and x: "0 \<le> x" "x \<le> 1"
  shows "Chen_Friedel P m x rhol rhog mul mug sigma D roughness L =
     Some (((1 - x) ^ 2 + x ^ 2 * (rhol * fd_go / (rhog * fd_lo))
            + 3.24 * (x powr 0.78 * (1 - x) powr 0.224)
                * ((rhol / rhog) powr 0.91 * (mug / mul) powr 0.19 * (1 - mug / mul) powr 0.7)
                / (Fr powr 0.0454 * We powr 0.035))
           * (fd_lo * L / D * (0.5 * rhol * v_lo ^ 2))
           * (if b / 4 < 2.5
              then 0.0333 * R_lo powr 0.45 / (R_g powr 0.09 * (1 + 0.5 * exp (- (b / 4))))
              else We powr 0.2 / (2.5 + 0.06 * (b / 4))))"
proof -
  have D: "D \<noteq> 0" "pi / 4 * D ^ 2 \<noteq> 0" using pos by simp_all
  have nz: "rhog \<noteq> 0" "mul \<noteq> 0" "rhog * fd_lo \<noteq> 0" "rhol \<noteq> 0"
    using pos by simp_all
  have S0: "x / rhog + (1 - x) / rhol \<noteq> 0" "1 / (x / rhog + (1 - x) / rhol) \<noteq> 0"
    using S by simp_all
  have px: "py_pow x 0.78 = Some (x powr 0.78)" "py_pow (1 - x) 0.224 = Some ((1 - x) powr 0.224)"
    using x by (simp_all add: py_pow_def)
  have ph: "py_pow (rhol / rhog) 0.91 = Some ((rhol / rhog) powr 0.91)"
    "py_pow (mug / mul) 0.19 = Some ((mug / mul) powr 0.19)"
    using divide_pos_pos[OF pos(1,2)] divide_pos_pos[OF pos(4,3)] by (simp_all add: py_pow_def)
  have "0 \<le> 1 - mug / mul" using mu pos by simp
  then have ph3: "py_pow (1 - mug / mul) 0.7 = Some ((1 - mug / mul) powr 0.7)"
    by (simp add: py_pow_def)
  have pf: "py_pow Fr 0.0454 = Some (Fr powr 0.0454)" "py_pow We 0.035 = Some (We powr 0.035)"
    using Fr(2) We(2) by (simp_all add: py_pow_def)
  have pp: "Fr powr 0.0454 * We powr 0.035 \<noteq> 0" using Fr(2) We(2) by simp
  have pw: "py_pow R_lo 0.45 = Some (R_lo powr 0.45)" "py_pow R_g 0.09 = Some (R_g powr 0.09)"
    "py_pow We 0.2 = Some (We powr 0.2)"
    using lo(2) Rg(2) We(2) by (simp_all add: py_pow_def)
  have e5: "py_div (0.0333 * R_lo powr 0.45) (R_g powr 0.09 * (1 + 0.5 * exp (- (b / 4))))
     = Some (0.0333 * R_lo powr 0.45 / (R_g powr 0.09 * (1 + 0.5 * exp (- (b / 4)))))"
  proof (rule py_div_Some)
    have "0 < R_g powr 0.09 * (1 + 0.5 * exp (- (b / 4)))"
      using Rg(2) by (intro mult_pos_pos add_pos_pos) simp_all
    then show "R_g powr 0.09 * (1 + 0.5 * exp (- (b / 4))) \<noteq> 0" by (rule pos_nonzero)
  qed
  have hi: "py_div (We powr 0.2) (2.5 + 0.06 * (b / 4))
       = (if b / 4 < 2.5 then py_div (We powr 0.2) (2.5 + 0.06 * (b / 4))
          else Some (We powr 0.2 / (2.5 + 0.06 * (b / 4))))"
    by (simp add: py_div_def)
  show ?thesis
    unfolding Chen_Friedel_def
    apply (simp only: lo(1) go Fr(1) We(1) bond Rg(1) phase_dP_Some[OF D(1)] py_div_Some[OF D(2)]
          py_div_Some[OF nz(1)] py_div_Some[OF nz(2)] py_div_Some[OF nz(3)] py_div_Some[OF nz(4)]
          py_div_Some[OF S0(1)] py_div_Some[OF S0(2)]
          px ph ph3 pf pw e5 py_div_Some[OF pp] bind.bind_lunit prod.case Let_def cong: if_cong)
    apply (subst hi)
    apply (simp only: if_Some_Some if_True if_False bind.bind_lunit cong: if_cong)
    done
qed

lemma friedel_phi_pos:
  assumes "0 \<le> (x::real)" "x \<le> 1" "0 < e" "0 \<le> T"
  shows "0 < (1 - x) ^ 2 + x ^ 2 * e + T"
proof (cases "x = 0")
  case True
  then show ?thesis using assms(4) by simp
next
  case False
  then have "0 < x ^ 2 * e" using assms(3) by simp
  moreover have "0 \<le> (1 - x) ^ 2" by simp
  ultimately show ?thesis using assms(4) by linarith
qed

lemma friedel_term_nonneg:
  "0 \<le> 3.24 * (a powr p * b powr q) * (c powr r * d powr s * e powr t) / (f powr u * g powr w)"
  for a b c d e f g :: real
  by (intro divide_nonneg_nonneg mult_nonneg_nonneg powr_ge_zero) simp_all

lemma Friedel_returns:
  assumes "flow_ok P" "mixture_ok P" "0 < m" "0 < rhol" "0 < rhog" "0 < mul" "0 < mug" "0 < D"
    "0 \<le> roughness" "0 < L" "0 < sigma" "mug \<le> mul" "0 \<le> x" "x \<le> 1"
  obtains f where "Friedel P m x rhol rhog mul mug sigma D roughness L = Some f" "0 < f"
proof -
  obtain v_lo R_lo fd_lo where lo:
    "phase_flow P m rhol mul D roughness = Some (v_lo, R_lo, fd_lo)"
    "0 < fd_lo * L / D * (0.5 * rhol * v_lo ^ 2)" "0 < fd_lo"
    using single_phase_ok[OF assms(1,3,4,6,8,9,10)] by blast
  obtain v_go R_go fd_go where go:
    "phase_flow P m rhog mug D roughness = Some (v_go, R_go, fd_go)" "0 < fd_go"
    using single_phase_ok[OF assms(1,3,5,7,8,9,10)] by blast
  obtain a Fr We where mx:
    "homogeneous P x rhol rhog = Some a"
    "0 < rhol * (1 - a) + rhog * a"
    "Froude P (m / (rhol * (1 - a) + rhog * a) / (pi / 4 * D ^ 2)) D True = Some Fr" "0 < Fr"
    "Weber P (m / (rhol * (1 - a) + rhog * a) / (pi / 4 * D ^ 2)) D (rhol * (1 - a) + rhog * a) sigma
       = Some We" "0 < We"
    using mixture_ok_values[OF assms(2,13,14,4,5,3,8,11)] by blast
  have e: "0 < rhol * fd_go / (rhog * fd_lo)" using assms(4,5) lo(3) go(2) by simp
  have "0 < ((1 - x) ^ 2 + x ^ 2 * (rhol * fd_go / (rhog * fd_lo))
            + 3.24 * (x powr 0.78 * (1 - x) powr 0.224)
                * ((rhol / rhog) powr 0.91 * (mug / mul) powr 0.19 * (1 - mug / mul) powr 0.7)
                / (Fr powr 0.0454 * We powr 0.035))
           * (fd_lo * L / D * (0.5 * rhol * v_lo ^ 2))"
    by (intro mult_pos_pos friedel_phi_pos[OF assms(13,14) e] friedel_term_nonneg lo(2))
  then show ?thesis
    using that Friedel_value[OF lo(1) go(1) mx assms(4,5,6,7,8) lo(3) assms(12,13,14)] by blast
qed

lemma omega_pos:
  assumes "0 < R_lo" "0 < R_g" "0 < We" "0 < (c::real)"
  shows "0 < (if b / 4 < 2.5
              then 0.0333 * R_lo powr 0.45 / (R_g powr 0.09 * (1 + c * exp (- (b / 4))))
              else We powr 0.2 / (2.5 + 0.06 * (b / 4)))"
proof (cases "b / 4 < 2.5")
  case True
  have "0 < 0.0333 * R_lo powr 0.45 / (R_g powr 0.09 * (1 + c * exp (- (b / 4))))"
    using assms by (intro divide_pos_pos mult_pos_pos add_pos_pos) simp_all
  then show ?thesis using True by simp
next
  case False
  then have "0 < 2.5 + 0.06 * (b / 4)" by simp
  then have "0 < We powr 0.2 / (2.5 + 0.06 * (b / 4))"
    using assms(3) by (intro divide_pos_pos) simp_all
  then show ?thesis using False by simp
qed

lemma Chen_Friedel_returns:
  assumes "flow_ok P" "mixture_ok P" "bond_ok P"
    "0 < m" "0 < rhol" "0 < rhog" "0 < mul" "0 < mug" "0 < D"
    "0 \<le> roughness" "0 < L" "0 < sigma" "mug \<le> mul" "0 < x" "x \<le> 1"
  obtains c where "Chen_Friedel P m x rhol rhog mul mug sigma D roughness L = Some c" "0 < c"
proof -
  obtain v_lo R_lo fd_lo where lo:
    "phase_flow P m rhol mul D roughness = Some (v_lo, R_lo, fd_lo)"
    "0 < fd_lo * L / D * (0.5 * rhol * v_lo ^ 2)" "0 < fd_lo" "0 < R_lo"
    using single_phase_ok[OF assms(1,4,5,7,9,10,11)] by blast
  obtain v_go R_go fd_go where go:
    "phase_flow P m rhog mug D roughness = Some (v_go, R_go, fd_go)" "0 < fd_go"
    using single_phase_ok[OF assms(1,4,6,8,9,10,11)] by blast
  have x0: "0 \<le> x" using assms(14) by simp
  define S where "S = x / rhog + (1 - x) / rhol"
  have S: "0 < S" unfolding S_def by (rule mix_density_pos[OF x0 assms(15,5,6)])
  define V where "V = m / (1 / S) / (pi / 4 * D ^ 2)"
  have V: "0 < V" using S assms(4,9) by (simp add: V_def)
  have rh: "0 < 1 / S" using S by simp
  from assms(2) V assms(9) obtain Fr where Fr: "Froude P V D True = Some Fr" "0 < Fr"
    unfolding mixture_ok_def by blast
  from assms(2) V assms(9,12) rh obtain We where We: "Weber P V D (1 / S) sigma = Some We" "0 < We"
    unfolding mixture_ok_def by blast
  from assms(3,9,12) obtain b where b: "Bond P rhol rhog sigma D = Some b"
    unfolding bond_ok_def by blast
  have vg: "0 < m * x / rhog / (pi / 4 * D ^ 2)" using assms(4,6,9,14) by simp
  obtain R_g where Rg: "Reynolds P (m * x / rhog / (pi / 4 * D ^ 2)) rhog mug D = Some R_g" "0 < R_g"
    using flow_ok_Reynolds[OF assms(1) vg assms(6,8,9)] by blast
  have e: "0 < rhol * fd_go / (rhog * fd_lo)" using assms(5,6) lo(3) go(2) by simp
  have half: "(0::real) < 0.5" by simp
  have "0 < ((1 - x) ^ 2 + x ^ 2 * (rhol * fd_go / (rhog * fd_lo))
            + 3.24 * (x powr 0.78 * (1 - x) powr 0.224)
                * ((rhol / rhog) powr 0.91 * (mug / mul) powr 0.19 * (1 - mug / mul) powr 0.7)
                / (Fr powr 0.0454 * We powr 0.035))
           * (fd_lo * L / D * (0.5 * rhol * v_lo ^ 2))
           * (if b / 4 < 2.5
              then 0.0333 * R_lo powr 0.45 / (R_g powr 0.09 * (1 + 0.5 * exp (- (b / 4))))
              else We powr 0.2 / (2.5 + 0.06 * (b / 4)))"
    by (intro mult_pos_pos friedel_phi_pos[OF x0 assms(15) e] friedel_term_nonneg lo(2)
          omega_pos[OF lo(4) Rg(2) We(2) half])
  then show ?thesis
    using that Chen_Friedel_value[OF lo(1,4) go(1) S[unfolded S_def] Fr[unfolded V_def S_def]
        We[unfolded V_def S_def] b Rg assms(5,6,7,8,9) lo(3) assms(13) x0 assms(15)]
    by blast
qed

lemma Chen_Friedel_viscous_gas:
  assumes "0 < mul" "mul < mug"
  shows "Chen_Friedel P m x rhol rhog mul mug sigma D roughness L = None"
proof -
  have nz: "mul \<noteq> 0" using assms by simp
  have "1 - mug / mul < 0" using assms by simp
  moreover have "(0.7::real) \<noteq> of_int \<lfloor>0.7::real\<rfloor>" by simp
  ultimately have h3: "py_pow (1 - mug / mul) 0.7 = None" by (rule py_pow_negative_base)
  show ?thesis
    unfolding Chen_Friedel_def
    by (simp add: py_div_Some[OF nz] h3 Let_def split: Option.bind_splits prod.splits)
qed

lemma std_bond_ok: "bond_ok std"
  by (simp add: bond_ok_def std_def py_div_def)

lemma Chen_coefficient_gap:
  assumes "flow_ok P" "mixture_ok P" "homogeneous_model P"
    "0 < m" "0 < rhol" "0 < rhog" "0 < mul" "0 < mug" "0 < D"
    "0 \<le> roughness" "0 < L" "0 < sigma" "mug \<le> mul" "0 < x" "x \<le> 1"
    and b: "Bond P rhol rhog sigma D = Some b" "b / 4 < 2.5"
  obtains c d where
    "Chen_Friedel P m x rhol rhog mul mug sigma D roughness L = Some c"
    "Chen_Friedel_documented P m x rhol rhog mul mug sigma D roughness L = Some d"
    "0 < c" "c < d"
proof -
  have x0: "0 \<le> x" using assms(14) by simp
  obtain f where f: "Friedel P m x rhol rhog mul mug sigma D roughness L = Some f" "0 < f"
    using Friedel_returns[OF assms(1,2,4-13) x0 assms(15)] by blast
  obtain a where hom: "homogeneous P x rhol rhog = Some a"
    "rhol * (1 - a) + rhog * a = 1 / (x / rhog + (1 - x) / rhol)"
    using homogeneous_model_density[OF assms(3) x0 assms(15,5,6)] by blast
  obtain v_lo R_lo fd_lo where lo:
    "phase_flow P m rhol mul D roughness = Some (v_lo, R_lo, fd_lo)" "0 < R_lo"
    using single_phase_ok[OF assms(1,4,5,7,9,10,11)] by blast
  define S where "S = x / rhog + (1 - x) / rhol"
  have S: "0 < S" unfolding S_def by (rule mix_density_pos[OF x0 assms(15,5,6)])
  define V where "V = m / (1 / S) / (pi / 4 * D ^ 2)"
  have V: "0 < V" using S assms(4,9) by (simp add: V_def)
  have rh: "0 < 1 / S" using S by simp
  from assms(2) V assms(9,12) rh obtain We where We: "Weber P V D (1 / S) sigma = Some We" "0 < We"
    unfolding mixture_ok_def by blast
  have vg: "0 < m * x / rhog / (pi / 4 * D ^ 2)" using assms(4,6,9,14) by simp
  obtain R_g where Rg: "Reynolds P (m * x / rhog / (pi / 4 * D ^ 2)) rhog mug D = Some R_g" "0 < R_g"
    using flow_ok_Reynolds[OF assms(1) vg assms(6,8,9)] by blast
  have nz: "rhog \<noteq> 0" "rhol \<noteq> 0" "D \<noteq> 0" using assms(5,6,9) by simp_all
  define A where "A = 0.0333 * R_lo powr 0.45"
  define R where "R = R_g powr 0.09"
  define e where "e = exp (- (b / 4))"
  have pos: "0 < A" "0 < R" "0 < e" using lo(2) Rg(2) by (simp_all add: A_def R_def e_def)
  have om: "Chen_Omega P m x rhol rhog mul mug sigma D roughness = Some (A / (R * (1 + 0.5 * e)))"
    "Omega_documented P m x rhol rhog mul mug sigma D roughness = Some (A / (R * (1 + 0.4 * e)))"
    using Chen_Omega_value[OF lo S[unfolded S_def] We[unfolded V_def S_def] b(1) Rg nz] b(2)
    unfolding A_def R_def e_def by simp_all
  have S0: "x / rhog + (1 - x) / rhol \<noteq> 0" using S unfolding S_def by simp
  have c: "Chen_Friedel P m x rhol rhog mul mug sigma D roughness L
             = Some (f * (A / (R * (1 + 0.5 * e))))"
    unfolding Chen_Friedel_factor[OF hom nz(1,2) S0] f(1) om(1) by simp
  have d: "Chen_Friedel_documented P m x rhol rhog mul mug sigma D roughness L
             = Some (f * (A / (R * (1 + 0.4 * e))))"
    unfolding Chen_Friedel_documented_def f(1) om(2) by simp
  have d4: "0 < R * (1 + 0.4 * e)" using pos by (intro mult_pos_pos add_pos_pos) simp_all
  have d5: "0 < R * (1 + 0.5 * e)" using pos by (intro mult_pos_pos add_pos_pos) simp_all
  have "R * (1 + 0.4 * e) < R * (1 + 0.5 * e)" using pos by simp
  then have "A / (R * (1 + 0.5 * e)) < A / (R * (1 + 0.4 * e))"
    by (rule divide_strict_left_mono[OF _ pos(1) mult_pos_pos[OF d5 d4]])
  then have lt: "f * (A / (R * (1 + 0.5 * e))) < f * (A / (R * (1 + 0.4 * e)))"
    by (rule mult_strict_left_mono[OF _ f(2)])
  have "0 < f * (A / (R * (1 + 0.5 * e)))"
    by (intro mult_pos_pos divide_pos_pos f(2) pos(1) d5)
  then show ?thesis using that[OF c d _ lt] by blast
qed

text \<open>
  C1: for \<open>Bo < 2.5\<close> the documentation of \<open>Chen_Friedel\<close> gives the factor
  \<open>0.0333 Re_lo\<^sup>0\<^sup>.\<^sup>4\<^sup>5/(Re_g\<^sup>0\<^sup>.\<^sup>0\<^sup>9 (1 + 0.4 exp(-Bo)))\<close>; the function divides by
  \<open>1 + 0.5 exp(-Bo)\<close>. At \<open>m = 0.00004\<close>, \<open>x = 0.9\<close>, \<open>\<rho>\<^sub>l = 950\<close>, \<open>\<rho>\<^sub>g = 1.4\<close>,
  \<open>\<mu>\<^sub>l = 0.001\<close>, \<open>\<mu>\<^sub>g = 0.00001\<close>, \<open>\<sigma> = 0.02\<close>, \<open>D = 0.003\<close>, roughness \<open>0\<close>, \<open>L = 1\<close>
  (where \<open>Bo\<close> is about \<open>1.05\<close>) both values exist and the returned one is
  strictly below the documented one.
\<close>

theorem Chen_Friedel_coefficient:
  "Chen_Friedel std 0.00004 0.9 950 1.4 0.001 0.00001 0.02 0.003 0 1 \<noteq> None \<and>
   Chen_Friedel_documented std 0.00004 0.9 950 1.4 0.001 0.00001 0.02 0.003 0 1 \<noteq> None \<and>
   the (Chen_Friedel std 0.00004 0.9 950 1.4 0.001 0.00001 0.02 0.003 0 1)
     < the (Chen_Friedel_documented std 0.00004 0.9 950 1.4 0.001 0.00001 0.02 0.003 0 1)"
proof -
  have b: "Bond std 950 1.4 0.02 0.003 = Some (g_std * (950 - 1.4) * 0.003 ^ 2 / 0.02)"
    by (simp add: std_def py_div_def)
  have lt: "g_std * (950 - 1.4) * 0.003 ^ 2 / 0.02 / 4 < 2.5"
    by (simp add: g_std_def power2_eq_square)
  obtain c d where
    "Chen_Friedel std 0.00004 0.9 950 1.4 0.001 0.00001 0.02 0.003 0 1 = Some c"
    "Chen_Friedel_documented std 0.00004 0.9 950 1.4 0.001 0.00001 0.02 0.003 0 1 = Some d"
    "c < d"
    by (rule Chen_coefficient_gap[OF std_flow_ok std_mixture_ok std_homogeneous_model
          _ _ _ _ _ _ _ _ _ _ _ _ b lt, where m = "0.00004" and x = "0.9" and mul = "0.001"
          and mug = "0.00001" and roughness = 0 and L = 1]) simp_all
  then show ?thesis by simp
qed

text \<open>
  C5: when the provider \<open>homogeneous\<close> returns the homogeneous void fraction,
  \<open>Chen_Friedel\<close> is \<open>Friedel\<close> on the same arguments times the factor
  \<open>Chen_Omega\<close>, errors included: the mixture density that \<open>Chen_Friedel\<close>
  computes directly is the one \<open>Friedel\<close> gets through the provider. For a valid
  input with \<open>0 < x\<close> and \<open>\<mu>\<^sub>g \<le> \<mu>\<^sub>l\<close> the call returns.
\<close>

theorem Chen_Friedel_is_Friedel_times_Omega:
  assumes "homogeneous_model P" "0 \<le> x" "x \<le> 1" "0 < rhol" "0 < rhog"
  shows "Chen_Friedel P m x rhol rhog mul mug sigma D roughness L = do {
           dP \<leftarrow> Friedel P m x rhol rhog mul mug sigma D roughness L;
           Omega \<leftarrow> Chen_Omega P m x rhol rhog mul mug sigma D roughness;
           Some (dP * Omega) } \<and>
         (flow_ok P \<and> mixture_ok P \<and> bond_ok P \<and> 0 < m \<and> 0 < mul \<and> 0 < mug \<and> 0 < D \<and>
          0 \<le> roughness \<and> 0 < L \<and> 0 < sigma \<and> mug \<le> mul \<and> 0 < x \<longrightarrow>
            Chen_Friedel P m x rhol rhog mul mug sigma D roughness L \<noteq> None)"
proof
  obtain a where hom: "homogeneous P x rhol rhog = Some a"
    "rhol * (1 - a) + rhog * a = 1 / (x / rhog + (1 - x) / rhol)"
    using homogeneous_model_density[OF assms] by blast
  have nz: "rhog \<noteq> 0" "rhol \<noteq> 0" using assms(4,5) by simp_all
  have S0: "x / rhog + (1 - x) / rhol \<noteq> 0"
    using mix_density_pos[OF assms(2-5)] by simp
  show "Chen_Friedel P m x rhol rhog mul mug sigma D roughness L = do {
           dP \<leftarrow> Friedel P m x rhol rhog mul mug sigma D roughness L;
           Omega \<leftarrow> Chen_Omega P m x rhol rhog mul mug sigma D roughness;
           Some (dP * Omega) }"
    by (rule Chen_Friedel_factor[OF hom nz S0])
next
  show "flow_ok P \<and> mixture_ok P \<and> bond_ok P \<and> 0 < m \<and> 0 < mul \<and> 0 < mug \<and> 0 < D \<and>
          0 \<le> roughness \<and> 0 < L \<and> 0 < sigma \<and> mug \<le> mul \<and> 0 < x \<longrightarrow>
            Chen_Friedel P m x rhol rhog mul mug sigma D roughness L \<noteq> None"
  proof
    assume h: "flow_ok P \<and> mixture_ok P \<and> bond_ok P \<and> 0 < m \<and> 0 < mul \<and> 0 < mug \<and> 0 < D \<and>
          0 \<le> roughness \<and> 0 < L \<and> 0 < sigma \<and> mug \<le> mul \<and> 0 < x"
    then obtain c where "Chen_Friedel P m x rhol rhog mul mug sigma D roughness L = Some c"
      using Chen_Friedel_returns[of P m rhol rhog mul mug D roughness L sigma x] assms(3,4,5)
      by blast
    then show "Chen_Friedel P m x rhol rhog mul mug sigma D roughness L \<noteq> None" by simp
  qed
qed

theorem Chen_Friedel_is_Friedel_times_Omega_witness:
  "homogeneous_model std \<and>
   Chen_Friedel std 0.0005 0.5 900 1.2 1 0.000018 0.03 0.05 0 1 = do {
           dP \<leftarrow> Friedel std 0.0005 0.5 900 1.2 1 0.000018 0.03 0.05 0 1;
           Omega \<leftarrow> Chen_Omega std 0.0005 0.5 900 1.2 1 0.000018 0.03 0.05 0;
           Some (dP * Omega) } \<and>
   Chen_Friedel std 0.0005 0.5 900 1.2 1 0.000018 0.03 0.05 0 1 \<noteq> None"
proof -
  have v: "(0::real) \<le> 0.5" "(0.5::real) \<le> 1" "(0::real) < 900" "(0::real) < 1.2" by simp_all
  have s: "flow_ok std \<and> mixture_ok std \<and> bond_ok std \<and> (0::real) < 0.0005 \<and> (0::real) < 1 \<and>
      (0::real) < 0.000018 \<and> (0::real) < 0.05 \<and> (0::real) \<le> 0 \<and> (0::real) < 1 \<and>
      (0::real) < 0.03 \<and> (0.000018::real) \<le> 1 \<and> (0::real) < 0.5"
    using std_flow_ok std_mixture_ok std_bond_ok by simp
  show ?thesis
    using Chen_Friedel_is_Friedel_times_Omega[OF std_homogeneous_model v,
        of "0.0005" 1 "0.000018" "0.03" "0.05" 0 1] s std_homogeneous_model
    by blast
qed

text \<open>
  C9: \<open>Friedel\<close> and \<open>Chen_Friedel\<close> evaluate \<open>(1 - \<mu>\<^sub>g/\<mu>\<^sub>l)\<^sup>0\<^sup>.\<^sup>7\<close>. With \<open>\<mu>\<^sub>g > \<mu>\<^sub>l\<close> the
  base is negative and neither call has a real result, whatever the other
  arguments; with \<open>\<mu>\<^sub>g < \<mu>\<^sub>l\<close> the power is defined, \<open>Friedel\<close> returns for every
  valid input, and so does \<open>Chen_Friedel\<close> for every valid input with \<open>0 < x\<close>.
\<close>

theorem Friedel_viscosity_precondition:
  "(0 < mul \<and> mul < mug \<longrightarrow>
      Friedel P m x rhol rhog mul mug sigma D roughness L = None \<and>
      Chen_Friedel P m x rhol rhog mul mug sigma D roughness L = None) \<and>
   (0 < mug \<and> mug < mul \<longrightarrow>
      py_pow (1 - mug / mul) 0.7 = Some ((1 - mug / mul) powr 0.7)) \<and>
   (flow_ok P \<and> mixture_ok P \<and> 0 < m \<and> 0 < rhol \<and> 0 < rhog \<and> 0 < mug \<and> mug < mul \<and>
    0 < D \<and> 0 \<le> roughness \<and> 0 < L \<and> 0 < sigma \<and> 0 \<le> x \<and> x \<le> 1 \<longrightarrow>
      Friedel P m x rhol rhog mul mug sigma D roughness L \<noteq> None \<and>
      (bond_ok P \<and> 0 < x \<longrightarrow>
         Chen_Friedel P m x rhol rhog mul mug sigma D roughness L \<noteq> None))"
proof (intro conjI impI)
  assume "0 < mul \<and> mul < mug"
  then show "Friedel P m x rhol rhog mul mug sigma D roughness L = None"
    using Friedel_viscous_gas by blast
next
  assume "0 < mul \<and> mul < mug"
  then show "Chen_Friedel P m x rhol rhog mul mug sigma D roughness L = None"
    using Chen_Friedel_viscous_gas by blast
next
  assume h: "0 < mug \<and> mug < mul"
  then have "0 \<le> 1 - mug / mul" by simp
  then show "py_pow (1 - mug / mul) 0.7 = Some ((1 - mug / mul) powr 0.7)"
    by (simp add: py_pow_def)
next
  assume h: "flow_ok P \<and> mixture_ok P \<and> 0 < m \<and> 0 < rhol \<and> 0 < rhog \<and> 0 < mug \<and> mug < mul \<and>
    0 < D \<and> 0 \<le> roughness \<and> 0 < L \<and> 0 < sigma \<and> 0 \<le> x \<and> x \<le> 1"
  then have mu: "0 < mul" "mug \<le> mul" by simp_all
  obtain f where "Friedel P m x rhol rhog mul mug sigma D roughness L = Some f"
    using Friedel_returns[of P m rhol rhog mul mug D roughness L sigma x] h mu by blast
  then show "Friedel P m x rhol rhog mul mug sigma D roughness L \<noteq> None" by simp
next
  assume h: "flow_ok P \<and> mixture_ok P \<and> 0 < m \<and> 0 < rhol \<and> 0 < rhog \<and> 0 < mug \<and> mug < mul \<and>
    0 < D \<and> 0 \<le> roughness \<and> 0 < L \<and> 0 < sigma \<and> 0 \<le> x \<and> x \<le> 1"
    and b: "bond_ok P \<and> 0 < x"
  from h have mu: "0 < mul" "mug \<le> mul" by simp_all
  obtain c where "Chen_Friedel P m x rhol rhog mul mug sigma D roughness L = Some c"
    using Chen_Friedel_returns[of P m rhol rhog mul mug D roughness L sigma x] h b mu by blast
  then show "Chen_Friedel P m x rhol rhog mul mug sigma D roughness L \<noteq> None" by simp
qed

theorem Friedel_viscosity_precondition_witness:
  "Friedel std 0.0005 0.5 900 1.2 0.00001 0.00002 0.03 0.05 0 1 = None \<and>
   Chen_Friedel std 0.0005 0.5 900 1.2 0.00001 0.00002 0.03 0.05 0 1 = None \<and>
   py_pow (1 - 0.000018 / 1) 0.7 = Some ((1 - 0.000018 / 1) powr 0.7) \<and>
   Friedel std 0.0005 0.5 900 1.2 1 0.000018 0.03 0.05 0 1 \<noteq> None \<and>
   Chen_Friedel std 0.0005 0.5 900 1.2 1 0.000018 0.03 0.05 0 1 \<noteq> None"
proof -
  have a: "(0::real) < 0.00001 \<and> (0.00001::real) < 0.00002" by simp
  have b: "(0::real) < 0.000018 \<and> (0.000018::real) < 1" by simp
  have s: "flow_ok std \<and> mixture_ok std \<and> (0::real) < 0.0005 \<and> (0::real) < 900 \<and>
      (0::real) < 1.2 \<and> (0::real) < 0.000018 \<and> (0.000018::real) < 1 \<and> (0::real) < 0.05 \<and>
      (0::real) \<le> 0 \<and> (0::real) < 1 \<and> (0::real) < 0.03 \<and> (0::real) \<le> 0.5 \<and> (0.5::real) \<le> 1"
    using std_flow_ok std_mixture_ok by simp
  have c: "bond_ok std \<and> (0::real) < 0.5" using std_bond_ok by simp
  show ?thesis
    using Friedel_viscosity_precondition[of "0.00001" "0.00002" std "0.0005" "0.5" 900 "1.2"
        "0.03" "0.05" 0 1]
      Friedel_viscosity_precondition[of 1 "0.000018" std "0.0005" "0.5" 900 "1.2"
        "0.03" "0.05" 0 1] a b s c
    by blast
qed

section \<open>Scaling with the length\<close>






















text \<open>
  C8: \<^verbatim>\<open>Chen_Friedel\<close> has no defaults for \<^verbatim>\<open>roughness\<close> and \<^verbatim>\<open>L\<close>. At \<open>m = 0.00004\<close>,
  \<open>x = 0.9\<close>, \<open>\<rho>\<^sub>l = 950\<close>, \<open>\<rho>\<^sub>g = 1.4\<close>, \<open>\<mu>\<^sub>l = 0.001\<close>, \<open>\<mu>\<^sub>g = 0.00001\<close>, \<open>\<sigma> = 0.02\<close>,
  \<open>D = 0.003\<close> the call that omits both raises, and so does a call that omits
  one of them, while the call with \<open>roughness = 0\<close> and \<open>L = 1\<close> returns; the
  sibling \<^verbatim>\<open>Friedel\<close> gives the same result with and without the two
  arguments.
\<close>

theorem Chen_Friedel_no_defaults:
  "Chen_Friedel_call std 0.00004 0.9 950 1.4 0.001 0.00001 0.02 0.003 None None = None \<and>
   Chen_Friedel_call std 0.00004 0.9 950 1.4 0.001 0.00001 0.02 0.003 (Some 0) None = None \<and>
   Chen_Friedel_call std 0.00004 0.9 950 1.4 0.001 0.00001 0.02 0.003 None (Some 1) = None \<and>
   Chen_Friedel_call std 0.00004 0.9 950 1.4 0.001 0.00001 0.02 0.003 (Some 0) (Some 1) \<noteq> None \<and>
   Friedel_call std 0.00004 0.9 950 1.4 0.001 0.00001 0.02 0.003 None None
     = Friedel_call std 0.00004 0.9 950 1.4 0.001 0.00001 0.02 0.003 (Some 0) (Some 1)"
proof -
  obtain c where "Chen_Friedel std 0.00004 0.9 950 1.4 0.001 0.00001 0.02 0.003 0 1 = Some c"
    by (rule Chen_Friedel_returns[OF std_flow_ok std_mixture_ok std_bond_ok,
          where m = "0.00004" and x = "0.9" and rhol = 950 and rhog = "1.4" and mul = "0.001"
          and mug = "0.00001" and sigma = "0.02" and D = "0.003" and roughness = 0 and L = 1])
       simp_all
  then show ?thesis by (simp add: Chen_Friedel_call_def Friedel_call_def)
qed

section \<open>Laminar single-phase flow with the concrete providers\<close>







section \<open>Values of the remaining correlations\<close>






section \<open>Non-negative results\<close>

















section \<open>The concrete providers meet the contracts\<close>










section \<open>Doubling the mass flow\<close>









section \<open>Gronnerud on both branches\<close>

lemma py_log_pos: "0 < a \<Longrightarrow> py_log a = Some (ln a)"
  by (simp add: py_log_def)

lemma Gronnerud_f_Fr_pos: "0 < Frl \<Longrightarrow> 0 < Gronnerud_f_Fr Frl"
proof -
  assume F: "0 < Frl"
  have "0 < Frl powr 0.3" using F by simp
  moreover have "0 \<le> 0.0055 * (ln (1 / Frl)) ^ 2" by simp
  ultimately have "0 < Frl powr 0.3 + 0.0055 * (ln (1 / Frl)) ^ 2" by (rule add_pos_nonneg)
  then show ?thesis by (simp add: Gronnerud_f_Fr_def)
qed

lemma Gronnerud_f_Fr_eval:
  assumes "0 < Frl"
  shows "(if Frl \<ge> 1 then Some 1
             else do {
               a \<leftarrow> py_pow Frl 0.3;
               i \<leftarrow> py_div 1 Frl;
               l \<leftarrow> py_log i;
               Some (a + 0.0055 * l ^ 2)
             }) = Some (Gronnerud_f_Fr Frl)"
proof -
  have nz: "Frl \<noteq> 0" using assms by simp
  have i: "0 < 1 / Frl" using assms by simp
  have p: "py_pow Frl 0.3 = Some (Frl powr 0.3)" by (rule py_pow_pos[OF assms]) simp
  show ?thesis
    unfolding Gronnerud_f_Fr_def
    by (simp only: p py_div_Some[OF nz] py_log_pos[OF i] bind.bind_lunit if_Some_Some)
qed

lemma Gronnerud_value_all:
  assumes lo: "phase_flow P m rhol mul D roughness = Some (v_lo, R_lo, fd_lo)"
      and Fr: "Froude P (m / (pi / 4 * D ^ 2) / rhol) D True = Some Frl" "0 < Frl"
      and pos: "0 < rhol" "0 < rhog" "0 < mul" "0 < mug" "0 < D" and x: "0 \<le> x"
  shows "Gronnerud P m x rhol rhog mul mug D roughness L =
     Some ((1 + Gronnerud_f_Fr Frl
                  * (x + 4 * (x powr 1.8 - x ^ 10 * Gronnerud_f_Fr Frl powr 0.5))
                  * (rhol / rhog / (mul / mug) powr 0.25 - 1))
           * (fd_lo * L / D * (0.5 * rhol * v_lo ^ 2)))"
proof -
  have D: "D \<noteq> 0" "pi / 4 * D ^ 2 \<noteq> 0" "rhol \<noteq> 0" "rhog \<noteq> 0" "mug \<noteq> 0"
    using pos by simp_all
  have mr: "0 < mul / mug" using pos by simp
  have pw: "py_pow x 1.8 = Some (x powr 1.8)" using x by (simp add: py_pow_def)
  have pf: "py_pow (Gronnerud_f_Fr Frl) 0.5 = Some (Gronnerud_f_Fr Frl powr 0.5)"
    by (rule py_pow_pos[OF Gronnerud_f_Fr_pos[OF Fr(2)]]) simp
  have pw3: "py_pow (mul / mug) 0.25 = Some ((mul / mug) powr 0.25)"
    by (rule py_pow_pos[OF mr]) simp
  have "0 < (mul / mug) powr 0.25"
    unfolding powr_gt_zero using mr by (rule pos_nonzero)
  then have m25: "(mul / mug) powr 0.25 \<noteq> 0" by (rule pos_nonzero)
  show ?thesis
    unfolding Gronnerud_def
    by (simp only: lo Fr(1) Gronnerud_f_Fr_eval[OF Fr(2)] phase_dP_Some[OF D(1)]
          py_div_Some[OF D(2)] py_div_Some[OF D(3)] py_div_Some[OF D(4)] py_div_Some[OF D(5)]
          py_div_Some[OF m25] pw pf pw3 bind.bind_lunit prod.case Let_def)
qed

lemma Gronnerud_returns:
  assumes "flow_ok P" "mixture_ok P" "0 < m" "0 < rhol" "0 < rhog" "0 < mul" "0 < mug"
    "0 < D" "0 \<le> roughness" "0 < L" "0 \<le> x"
  shows "Gronnerud P m x rhol rhog mul mug D roughness L \<noteq> None"
proof -
  obtain v_lo R_lo fd_lo where lo:
    "phase_flow P m rhol mul D roughness = Some (v_lo, R_lo, fd_lo)"
    using single_phase_ok[OF assms(1,3,4,6,8,9,10)] by blast
  have V: "0 < m / (pi / 4 * D ^ 2) / rhol" using assms(3,4,8) by simp
  from assms(2) V assms(8) obtain Frl where
    Fr: "Froude P (m / (pi / 4 * D ^ 2) / rhol) D True = Some Frl" "0 < Frl"
    unfolding mixture_ok_def by blast
  show ?thesis
    unfolding Gronnerud_value_all[OF lo Fr assms(4,5,6,7,8,11)] by simp
qed

section \<open>The single-phase drop grows with the flow\<close>

lemma reynolds_model_Reynolds:
  "reynolds_model P \<Longrightarrow> 0 < V \<Longrightarrow> 0 < rho \<Longrightarrow> 0 < mu \<Longrightarrow> 0 < D \<Longrightarrow>
     Reynolds P V rho mu D = Some (rho * V * D / mu)"
  unfolding reynolds_model_def by blast

lemma friction_increasingD:
  "friction_increasing P \<Longrightarrow> 0 < Rn \<Longrightarrow> Rn < Rn' \<Longrightarrow> 0 \<le> eD \<Longrightarrow>
     friction_factor P Rn eD = Some f \<Longrightarrow> friction_factor P Rn' eD = Some f' \<Longrightarrow>
     f * Rn ^ 2 < f' * Rn' ^ 2"
  unfolding friction_increasing_def by blast

lemma reynolds_pos:
  "0 < (v::real) \<Longrightarrow> 0 < rho \<Longrightarrow> 0 < mu \<Longrightarrow> 0 < D \<Longrightarrow> 0 < rho * v * D / mu"
  by simp

lemma phase_flow_reynolds:
  assumes "flow_ok P" "reynolds_model P" "0 < flow" "0 < rho" "0 < mu" "0 < D" "0 \<le> roughness"
  obtains fd where
    "phase_flow P flow rho mu D roughness
       = Some (flow / rho / (pi / 4 * D ^ 2), rho * (flow / rho / (pi / 4 * D ^ 2)) * D / mu, fd)"
    "friction_factor P (rho * (flow / rho / (pi / 4 * D ^ 2)) * D / mu) (roughness / D) = Some fd"
    "0 < fd"
proof -
  let ?v = "flow / rho / (pi / 4 * D ^ 2)"
  let ?R = "rho * ?v * D / mu"
  have v: "0 < ?v" using assms(3,4,6) by simp
  have R: "0 < ?R" by (rule reynolds_pos[OF v assms(4,5,6)])
  have eD: "0 \<le> roughness / D" using assms(6,7) by simp
  obtain fd where fd: "friction_factor P ?R (roughness / D) = Some fd" "0 < fd"
    using flow_ok_friction[OF assms(1) R eD] by blast
  have nz: "rho \<noteq> 0" "pi / 4 * D ^ 2 \<noteq> 0" "D \<noteq> 0" using assms(4,6) by simp_all
  have "phase_flow P flow rho mu D roughness = Some (?v, ?R, fd)"
    unfolding phase_flow_def
    by (simp only: py_div_Some[OF nz(1)] py_div_Some[OF nz(2)] py_div_Some[OF nz(3)]
          reynolds_model_Reynolds[OF assms(2) v assms(4,5,6)] fd(1) bind.bind_lunit)
  then show ?thesis using that fd by blast
qed

lemma drop_as_friction_product:
  assumes "0 < (rho::real)" "0 < mu" "0 < D"
  shows "f * L / D * (0.5 * rho * v ^ 2)
           = (f * (rho * v * D / mu) ^ 2) * (L / D * (0.5 * rho * (mu / (rho * D)) ^ 2))"
proof -
  have "(rho * v * D / mu) * (mu / (rho * D)) = v" using assms by (simp add: field_simps)
  then have "((rho * v * D / mu) * (mu / (rho * D))) ^ 2 = v ^ 2" by simp
  then have "(rho * v * D / mu) ^ 2 * (mu / (rho * D)) ^ 2 = v ^ 2"
    by (simp only: power_mult_distrib)
  then have "f * L / D * (0.5 * rho * v ^ 2)
      = f * L / D * (0.5 * rho * ((rho * v * D / mu) ^ 2 * (mu / (rho * D)) ^ 2))" by simp
  then show ?thesis by (simp only: mult_ac times_divide_eq_right times_divide_eq_left)
qed

lemma phase_increasing:
  assumes "flow_ok P" "reynolds_model P" "friction_increasing P"
    "0 < flow" "flow < flow'" "0 < rho" "0 < mu" "0 < D" "0 \<le> roughness" "0 < L"
  obtains v Rn fd v' Rn' fd' where
    "phase_flow P flow rho mu D roughness = Some (v, Rn, fd)"
    "phase_flow P flow' rho mu D roughness = Some (v', Rn', fd')"
    "0 < fd * L / D * (0.5 * rho * v ^ 2)"
    "fd * L / D * (0.5 * rho * v ^ 2) < fd' * L / D * (0.5 * rho * v' ^ 2)"
proof -
  let ?v = "flow / rho / (pi / 4 * D ^ 2)"
  let ?v' = "flow' / rho / (pi / 4 * D ^ 2)"
  let ?R = "rho * ?v * D / mu"
  let ?R' = "rho * ?v' * D / mu"
  let ?K = "L / D * (0.5 * rho * (mu / (rho * D)) ^ 2)"
  have f': "0 < flow'" using assms(4,5) by simp
  obtain fd where a: "phase_flow P flow rho mu D roughness = Some (?v, ?R, fd)"
    "friction_factor P ?R (roughness / D) = Some fd" "0 < fd"
    using phase_flow_reynolds[OF assms(1,2,4,6,7,8,9)] by blast
  obtain fd' where b: "phase_flow P flow' rho mu D roughness = Some (?v', ?R', fd')"
    "friction_factor P ?R' (roughness / D) = Some fd'" "0 < fd'"
    using phase_flow_reynolds[OF assms(1,2) f' assms(6,7,8,9)] by blast
  have A: "0 < pi / 4 * D ^ 2" using assms(8) by simp
  have v: "0 < ?v" using assms(4,6,8) by simp
  have "flow / rho < flow' / rho" using assms(5,6) by (simp add: divide_strict_right_mono)
  then have vv: "?v < ?v'" using A by (rule divide_strict_right_mono)
  have c: "0 < rho * D / mu" using assms(6,7,8) by simp
  have e: "t * (rho * D / mu) = rho * t * D / mu" for t by simp
  have "?v * (rho * D / mu) < ?v' * (rho * D / mu)"
    using vv c by (rule mult_strict_right_mono)
  then have RR: "?R < ?R'" unfolding e .
  have "0 < ?v * (rho * D / mu)" using v c by (rule mult_pos_pos)
  then have R: "0 < ?R" unfolding e .
  have eD: "0 \<le> roughness / D" using assms(8,9) by simp
  have inc: "fd * ?R ^ 2 < fd' * ?R' ^ 2"
    by (rule friction_increasingD[OF assms(3) R RR eD a(2) b(2)])
  have "0 < (mu / (rho * D)) ^ 2" using assms(6,7,8) by simp
  then have "0 < 0.5 * rho * (mu / (rho * D)) ^ 2" using assms(6) by simp
  moreover have "0 < L / D" using assms(8,10) by simp
  ultimately have K: "0 < ?K" by (rule mult_pos_pos[rotated])
  have "fd * ?R ^ 2 * ?K < fd' * ?R' ^ 2 * ?K" using inc K by (rule mult_strict_right_mono)
  then have lt: "fd * L / D * (0.5 * rho * ?v ^ 2) < fd' * L / D * (0.5 * rho * ?v' ^ 2)"
    by (simp only: drop_as_friction_product[OF assms(6,7,8), symmetric])
  have "0 < fd * ?R ^ 2" using a(3) zero_less_power[OF R] by (rule mult_pos_pos)
  then have "0 < fd * ?R ^ 2 * ?K" using K by (rule mult_pos_pos)
  then have p: "0 < fd * L / D * (0.5 * rho * ?v ^ 2)"
    by (simp only: drop_as_friction_product[OF assms(6,7,8), symmetric])
  show ?thesis using that[OF a(1) b(1) p lt] .
qed

lemma phase_flow_single:
  assumes "phase_flow P flow rho mu D roughness = Some (v, Rn, fd)" "D \<noteq> 0"
  shows "single_phase_dP P flow rho mu D roughness L = Some (fd * L / D * (0.5 * rho * v ^ 2))"
  unfolding single_phase_dP_def assms(1)
  by (simp only: bind.bind_lunit prod.case phase_dP_Some[OF assms(2)])

lemma single_phase_increasing:
  assumes "flow_ok P" "reynolds_model P" "friction_increasing P"
    "0 < flow" "flow < flow'" "0 < rho" "0 < mu" "0 < D" "0 \<le> roughness" "0 < L"
  obtains d d' where
    "single_phase_dP P flow rho mu D roughness L = Some d"
    "single_phase_dP P flow' rho mu D roughness L = Some d'"
    "0 < d" "d < d'"
proof -
  obtain v Rn fd v' Rn' fd' where a:
    "phase_flow P flow rho mu D roughness = Some (v, Rn, fd)"
    "phase_flow P flow' rho mu D roughness = Some (v', Rn', fd')"
    "0 < fd * L / D * (0.5 * rho * v ^ 2)"
    "fd * L / D * (0.5 * rho * v ^ 2) < fd' * L / D * (0.5 * rho * v' ^ 2)"
    using phase_increasing[OF assms] by blast
  have D: "D \<noteq> 0" using assms(8) by simp
  show ?thesis
    using that[OF phase_flow_single[OF a(1) D] phase_flow_single[OF a(2) D] a(3,4)] .
qed

lemma std_reynolds_model: "reynolds_model std"
  by (simp add: reynolds_model_def std_def py_div_def)

lemma std_friction_increasing: "friction_increasing std"
proof -
  have "64 / Rn * Rn ^ 2 < 64 / Rn' * Rn' ^ 2" if "0 < Rn" "Rn < Rn'" for Rn Rn' :: real
  proof -
    have "64 / Rn * Rn ^ 2 = 64 * Rn" using that by (simp add: power2_eq_square)
    moreover have "64 / Rn' * Rn' ^ 2 = 64 * Rn'" using that by (simp add: power2_eq_square)
    ultimately show ?thesis using that by simp
  qed
  then show ?thesis
    by (auto simp add: friction_increasing_def std_def py_div_def split: if_splits)
qed

end
